theory Spec2Isabelle
  imports Main
begin

section \<open>Dates: the part of Python's \<open>datetime\<close> the orchestrator uses\<close>

text \<open>
  A naive \<open>datetime\<close> value. \<open>datetime.now()\<close> carries the time of day;
  \<open>strptime(s, "%Y-%m-%d")\<close> and \<open>datetime(y, m, d)\<close> give midnight.
\<close>

record datetime =
  year :: int
  month :: int
  day :: int
  hour :: int
  minute :: int
  second :: int
  microsecond :: int

definition is_leap :: "int \<Rightarrow> bool" where
  "is_leap y = (y mod 4 = 0 \<and> (if y mod 100 = 0 then y mod 400 = 0 else True))"

definition days_in_month :: "int \<Rightarrow> int \<Rightarrow> int" where
  "days_in_month y m =
     (if m = 2 then (if is_leap y then 29 else 28)
      else if m = 4 \<or> m = 6 \<or> m = 9 \<or> m = 11 then 30 else 31)"

text \<open>What the \<open>datetime\<close> constructor accepts (MINYEAR = 1, MAXYEAR = 9999).\<close>

definition valid_date :: "int \<Rightarrow> int \<Rightarrow> int \<Rightarrow> bool" where
  "valid_date y m d =
     (1 \<le> y \<and> y \<le> 9999 \<and> 1 \<le> m \<and> m \<le> 12 \<and> 1 \<le> d \<and> d \<le> days_in_month y m)"

text \<open>
  \<open>datetime(y, m, d)\<close> and \<open>dt.replace(year=y)\<close>. Both raise \<open>ValueError\<close> on a date
  that does not exist (29 February outside a leap year, a year outside 1..9999); the only
  exception these calls raise is \<open>ValueError\<close>, written \<open>None\<close>.
\<close>

definition datetime_ymd :: "int \<Rightarrow> int \<Rightarrow> int \<Rightarrow> datetime option" where
  "datetime_ymd y m d =
     (if valid_date y m d
      then Some \<lparr>year = y, month = m, day = d, hour = 0, minute = 0, second = 0, microsecond = 0\<rparr>
      else None)"

definition replace_year :: "datetime \<Rightarrow> int \<Rightarrow> datetime option" where
  "replace_year dt y = (if valid_date y (month dt) (day dt) then Some (dt\<lparr>year := y\<rparr>) else None)"

text \<open>Comparison of naive datetimes: lexicographic on the seven fields.\<close>

fun lex_lt :: "int list \<Rightarrow> int list \<Rightarrow> bool" where
  "lex_lt (x # xs) (y # ys) = (x < y \<or> (x = y \<and> lex_lt xs ys))"
| "lex_lt _ _ = False"

definition dt_fields :: "datetime \<Rightarrow> int list" where
  "dt_fields dt = [year dt, month dt, day dt, hour dt, minute dt, second dt, microsecond dt]"

definition dt_lt :: "datetime \<Rightarrow> datetime \<Rightarrow> bool" where
  "dt_lt a b = lex_lt (dt_fields a) (dt_fields b)"

definition dt_le :: "datetime \<Rightarrow> datetime \<Rightarrow> bool" where
  "dt_le a b = (dt_lt a b \<or> dt_fields a = dt_fields b)"

subsection \<open>\<open>strptime(s, "%Y-%m-%d")\<close> and \<open>strftime("%Y-%m-%d")\<close>\<close>

definition digit_val :: "char \<Rightarrow> int option" where
  "digit_val c =
     (let n = (of_char c :: nat) in if 48 \<le> n \<and> n \<le> 57 then Some (int n - 48) else None)"

definition is_digit :: "char \<Rightarrow> bool" where
  "is_digit c = (digit_val c \<noteq> None)"

text \<open>The directive \<open>%Y\<close>: exactly four digits.\<close>

fun parse_Y :: "string \<Rightarrow> (int \<times> string) option" where
  "parse_Y (a # b # c # d # rest) =
     (case (digit_val a, digit_val b, digit_val c, digit_val d) of
        (Some x, Some y, Some z, Some w) \<Rightarrow> Some (1000 * x + 100 * y + 10 * z + w, rest)
      | _ \<Rightarrow> None)"
| "parse_Y _ = None"

text \<open>The directive \<open>%m\<close>: the alternatives \<open>1[0-2]\<close>, \<open>0[1-9]\<close>, \<open>[1-9]\<close>, tried in this order.\<close>

fun parse_m :: "string \<Rightarrow> (int \<times> string) option" where
  "parse_m (a # b # rest) =
     (if a = CHR ''1'' \<and> (b = CHR ''0'' \<or> b = CHR ''1'' \<or> b = CHR ''2'')
      then Some (10 + the (digit_val b), rest)
      else if a = CHR ''0'' \<and> is_digit b \<and> b \<noteq> CHR ''0''
      then Some (the (digit_val b), rest)
      else if is_digit a \<and> a \<noteq> CHR ''0'' then Some (the (digit_val a), b # rest)
      else None)"
| "parse_m [a] = (if is_digit a \<and> a \<noteq> CHR ''0'' then Some (the (digit_val a), []) else None)"
| "parse_m [] = None"

text \<open>
  The directive \<open>%d\<close>: the alternatives \<open>3[01]\<close>, \<open>[12]\d\<close>, \<open>0[1-9]\<close>, \<open>[1-9]\<close> and a
  space followed by \<open>[1-9]\<close>, tried in this order; nothing follows the directive in the
  format, so the first alternative that matches is taken.
\<close>

fun parse_d :: "string \<Rightarrow> (int \<times> string) option" where
  "parse_d (a # b # rest) =
     (if a = CHR ''3'' \<and> (b = CHR ''0'' \<or> b = CHR ''1'')
      then Some (30 + the (digit_val b), rest)
      else if (a = CHR ''1'' \<or> a = CHR ''2'') \<and> is_digit b
      then Some (10 * the (digit_val a) + the (digit_val b), rest)
      else if a = CHR ''0'' \<and> is_digit b \<and> b \<noteq> CHR ''0''
      then Some (the (digit_val b), rest)
      else if is_digit a \<and> a \<noteq> CHR ''0'' then Some (the (digit_val a), b # rest)
      else if a = CHR '' '' \<and> is_digit b \<and> b \<noteq> CHR ''0''
      then Some (the (digit_val b), rest)
      else None)"
| "parse_d [a] = (if is_digit a \<and> a \<noteq> CHR ''0'' then Some (the (digit_val a), []) else None)"
| "parse_d [] = None"

text \<open>
  \<open>datetime.strptime(s, "%Y-%m-%d")\<close>: the three directives separated by \<open>-\<close>, no
  unconverted data left, and the date must exist. Every failure is a \<open>ValueError\<close>.
\<close>

definition strptime :: "string \<Rightarrow> datetime option" where
  "strptime s =
     (case parse_Y s of
        None \<Rightarrow> None
      | Some (y, r1) \<Rightarrow>
          (case r1 of
             [] \<Rightarrow> None
           | c1 # r2 \<Rightarrow>
               if c1 \<noteq> CHR ''-'' then None
               else (case parse_m r2 of
                       None \<Rightarrow> None
                     | Some (m, r3) \<Rightarrow>
                         (case r3 of
                            [] \<Rightarrow> None
                          | c2 # r4 \<Rightarrow>
                              if c2 \<noteq> CHR ''-'' then None
                              else (case parse_d r4 of
                                      None \<Rightarrow> None
                                    | Some (d, r5) \<Rightarrow>
                                        if r5 \<noteq> [] then None else datetime_ymd y m d)))))"

definition digit_char :: "int \<Rightarrow> char" where
  "digit_char n = char_of (48 + nat n)"

definition pad2 :: "int \<Rightarrow> string" where
  "pad2 n = [digit_char (n div 10), digit_char (n mod 10)]"

definition pad4 :: "int \<Rightarrow> string" where
  "pad4 n = [digit_char (n div 1000), digit_char (n div 100 mod 10),
             digit_char (n div 10 mod 10), digit_char (n mod 10)]"

text \<open>
  \<open>dt.strftime("%Y-%m-%d")\<close> and the f-string \<open>f"{year}-{month:02d}-{day:02d}"\<close>, for
  years 1000..9999 (C libraries differ on padding \<open>%Y\<close> below 1000; the reference time of
  a run is far above).
\<close>

definition strftime :: "datetime \<Rightarrow> string" where
  "strftime dt = pad4 (year dt) @ ''-'' @ pad2 (month dt) @ ''-'' @ pad2 (day dt)"

section \<open>The trip parameter normalizer\<close>

subsection \<open>\<open>Orchestrator._validate_and_normalize_intent\<close>: the two date fields\<close>

text \<open>
  \<open>now\<close> is the value of \<open>datetime.now()\<close>. A field of the loosely typed record is
  \<open>None\<close> or a string; \<open>if depart_date:\<close> is false for \<open>None\<close> and for the empty string.
  The result is the string stored back into \<open>intent_data["depart_date"]\<close>.
\<close>

definition normalize_depart_date :: "datetime \<Rightarrow> string option \<Rightarrow> string" where
  "normalize_depart_date now depart_date =
     (case depart_date of
        None \<Rightarrow> ''''
      | Some s \<Rightarrow>
          if s = '''' then ''''
          else (case strptime s of
                  None \<Rightarrow> ''''
                | Some date_obj \<Rightarrow>
                    (case replace_year date_obj (year now) of
                       None \<Rightarrow> ''''
                     | Some current_year_date \<Rightarrow>
                         if dt_lt current_year_date now
                         then (case replace_year date_obj (year now + 1) of
                                 None \<Rightarrow> ''''
                               | Some fixed_date \<Rightarrow> strftime fixed_date)
                         else if dt_le now current_year_date
                         then (if year date_obj \<noteq> year now then strftime current_year_date else s)
                         else s)))"

text \<open>
  The return date. \<open>depart_date\<close> is the field as \<open>normalize_depart_date\<close> left it. The
  inner \<open>try\<close> swallows a \<open>ValueError\<close> (\<open>pass\<close>) and leaves the return date as it was; a
  \<open>ValueError\<close> in the "not in the past" step reaches the outer handler, which stores
  \<open>None\<close>.
\<close>

definition anchor_return :: "string \<Rightarrow> string \<Rightarrow> datetime \<Rightarrow> string \<times> datetime" where
  "anchor_return depart_date return_date return_date_obj =
     (if depart_date = '''' then (return_date, return_date_obj)
      else (case strptime depart_date of
              None \<Rightarrow> (return_date, return_date_obj)
            | Some depart_obj \<Rightarrow>
                if dt_lt return_date_obj depart_obj
                then (case replace_year return_date_obj (year depart_obj) of
                        None \<Rightarrow> (return_date, return_date_obj)
                      | Some fixed_return \<Rightarrow>
                          if dt_le fixed_return depart_obj
                          then (case replace_year return_date_obj (year depart_obj + 1) of
                                  None \<Rightarrow> (return_date, return_date_obj)
                                | Some fixed_return' \<Rightarrow> (strftime fixed_return', fixed_return'))
                          else (strftime fixed_return, fixed_return))
                else (return_date, return_date_obj)))"

definition normalize_return_date :: "datetime \<Rightarrow> string \<Rightarrow> string option \<Rightarrow> string option" where
  "normalize_return_date now depart_date return_date =
     (case return_date of
        None \<Rightarrow> None
      | Some r \<Rightarrow>
          if r = '''' then None
          else if r = ''null'' \<or> r = ''None'' then None
          else (case strptime r of
                  None \<Rightarrow> None
                | Some return_date_obj \<Rightarrow>
                    (case anchor_return depart_date r return_date_obj of
                       (r', return_date_obj') \<Rightarrow>
                         if dt_lt return_date_obj' now
                         then (case replace_year return_date_obj' (year now + 1) of
                                 None \<Rightarrow> None
                               | Some fixed_return \<Rightarrow>
                                   if dt_lt now fixed_return then Some (strftime fixed_return)
                                   else Some r')
                         else Some r')))"

definition validate_and_normalize_intent ::
  "datetime \<Rightarrow> string option \<Rightarrow> string option \<Rightarrow> string \<times> string option" where
  "validate_and_normalize_intent now depart_date return_date =
     (let d = normalize_depart_date now depart_date
      in (d, normalize_return_date now d return_date))"

subsection \<open>\<open>Orchestrator._extract_dates\<close>\<close>

text \<open>\<open>re.match(r"\d{4}-\d{2}-\d{2}", s)\<close>: the pattern at the start of \<open>s\<close>.\<close>

fun iso_prefix :: "string \<Rightarrow> bool" where
  "iso_prefix (y1 # y2 # y3 # y4 # h1 # m1 # m2 # h2 # d1 # d2 # rest) =
     (is_digit y1 \<and> is_digit y2 \<and> is_digit y3 \<and> is_digit y4 \<and> h1 = CHR ''-'' \<and>
      is_digit m1 \<and> is_digit m2 \<and> h2 = CHR ''-'' \<and> is_digit d1 \<and> is_digit d2)"
| "iso_prefix _ = False"

text \<open>
  \<open>re.findall(r"\d{4}-\d{2}-\d{2}", text)\<close>: the matches from left to right, the scan
  resuming after each match.
\<close>

function findall_iso :: "string \<Rightarrow> string list" where
  "findall_iso [] = []"
| "findall_iso (c # cs) =
     (if iso_prefix (c # cs) then take 10 (c # cs) # findall_iso (drop 9 cs)
      else findall_iso cs)"
  by pat_completeness auto
termination
  by (relation "measure length") auto

text \<open>
  The year chosen for a day and month found in natural language (the body of the match
  loop once \<open>month\<close> and \<open>day\<close> are known): \<open>None\<close> where the source skips the match
  (\<open>continue\<close>), the date string otherwise.
\<close>

definition natural_date_str :: "datetime \<Rightarrow> int \<Rightarrow> int \<Rightarrow> string option" where
  "natural_date_str now month' day' =
     (if 1 \<le> day' \<and> day' \<le> 31
      then (case datetime_ymd (year now) month' day' of
              None \<Rightarrow> None
            | Some test_date \<Rightarrow>
                (let year' = (if dt_lt test_date now then year now + 1 else year now)
                 in Some (pad4 year' @ ''-'' @ pad2 month' @ ''-'' @ pad2 day')))
      else None)"

text \<open>
  The whole extraction: explicit \<open>YYYY-MM-DD\<close> tokens win; otherwise the natural-language
  patterns, whose regular expressions are not modelled: \<open>natural\<close> stands for that branch
  of the function (the list it returns for the text).
\<close>

definition extract_dates :: "(string \<Rightarrow> string list) \<Rightarrow> string \<Rightarrow> string list" where
  "extract_dates natural text =
     (let dates = findall_iso text in if dates \<noteq> [] then dates else natural text)"

subsection \<open>\<open>Orchestrator._extract_intent_fallback\<close>: the two date fields\<close>

text \<open>
  \<open>dates\<close> is the list \<open>_extract_dates\<close> returned. Here a \<open>ValueError\<close> leaves the field as
  it stands (\<open>pass\<close>).
\<close>

definition fallback_depart_date :: "datetime \<Rightarrow> string \<Rightarrow> string" where
  "fallback_depart_date now depart_date =
     (if depart_date = '''' then depart_date
      else (case strptime depart_date of
              None \<Rightarrow> depart_date
            | Some date_obj \<Rightarrow>
                (case replace_year date_obj (year now) of
                   None \<Rightarrow> depart_date
                 | Some current_year_date \<Rightarrow>
                     if dt_lt current_year_date now
                     then (case replace_year date_obj (year now + 1) of
                             None \<Rightarrow> depart_date
                           | Some fixed_date \<Rightarrow> strftime fixed_date)
                     else if dt_le now current_year_date \<and> year date_obj \<noteq> year now
                     then strftime current_year_date
                     else depart_date)))"

definition fallback_return_date :: "datetime \<Rightarrow> string \<Rightarrow> string option \<Rightarrow> string option" where
  "fallback_return_date now depart_date return_date =
     (case return_date of
        None \<Rightarrow> None
      | Some r \<Rightarrow>
          if r = '''' then Some r
          else (case strptime r of
                  None \<Rightarrow> Some r
                | Some return_date_obj \<Rightarrow>
                    (case anchor_return depart_date r return_date_obj of
                       (r', return_date_obj') \<Rightarrow>
                         if dt_lt return_date_obj' now
                         then (case replace_year return_date_obj' (year now + 1) of
                                 None \<Rightarrow> Some r'
                               | Some fixed_return \<Rightarrow>
                                   if dt_lt now fixed_return then Some (strftime fixed_return)
                                   else Some r')
                         else Some r')))"

definition extract_intent_fallback_dates ::
  "datetime \<Rightarrow> string list \<Rightarrow> string \<times> string option" where
  "extract_intent_fallback_dates now dates =
     (let depart_date = (case dates of [] \<Rightarrow> '''' | d # _ \<Rightarrow> d);
          return_date = (case dates of _ # r # _ \<Rightarrow> Some r | _ \<Rightarrow> None);
          depart_date' = fallback_depart_date now depart_date
      in (depart_date', fallback_return_date now depart_date' return_date))"

section \<open>Loosely typed values and exceptions\<close>

text \<open>
  Agent results and the fields of the language model's JSON are Python values built from
  \<open>None\<close>, booleans, integers, strings, lists and dictionaries (in insertion order).
\<close>

datatype jv =
    JNone
  | JBool bool
  | JInt int
  | JStr string
  | JList "jv list"
  | JDict "(string \<times> jv) list"

text \<open>An exception with the text \<open>str(e)\<close> gives.\<close>

datatype exn =
    ValueError string
  | TypeError string
  | AttributeError string
  | KeyError string
  | Exception string

fun str_exn :: "exn \<Rightarrow> string" where
  "str_exn (ValueError m) = m"
| "str_exn (TypeError m) = m"
| "str_exn (AttributeError m) = m"
| "str_exn (KeyError m) = m"
| "str_exn (Exception m) = m"

fun type_name :: "jv \<Rightarrow> string" where
  "type_name JNone = ''NoneType''"
| "type_name (JBool _) = ''bool''"
| "type_name (JInt _) = ''int''"
| "type_name (JStr _) = ''str''"
| "type_name (JList _) = ''list''"
| "type_name (JDict _) = ''dict''"

text \<open>Truth value of an object (\<open>if x:\<close>, \<open>not x\<close>, \<open>x or y\<close>).\<close>

fun truthy :: "jv \<Rightarrow> bool" where
  "truthy JNone = False"
| "truthy (JBool b) = b"
| "truthy (JInt n) = (n \<noteq> 0)"
| "truthy (JStr s) = (s \<noteq> [])"
| "truthy (JList xs) = (xs \<noteq> [])"
| "truthy (JDict kvs) = (kvs \<noteq> [])"

text \<open>\<open>x.get(key, default)\<close>: only a dictionary has the method.\<close>

fun py_get :: "jv \<Rightarrow> string \<Rightarrow> jv \<Rightarrow> exn + jv" where
  "py_get (JDict kvs) k dflt = Inr (case map_of kvs k of None \<Rightarrow> dflt | Some v \<Rightarrow> v)"
| "py_get v k dflt =
     Inl (AttributeError ([CHR 0x27] @ type_name v @ [CHR 0x27] @ '' object has no attribute '' @
                          [CHR 0x27] @ ''get'' @ [CHR 0x27]))"

text \<open>\<open>len(x)\<close>.\<close>

fun py_len :: "jv \<Rightarrow> exn + int" where
  "py_len (JStr s) = Inr (int (length s))"
| "py_len (JList xs) = Inr (int (length xs))"
| "py_len (JDict kvs) = Inr (int (length kvs))"
| "py_len v =
     Inl (TypeError (''object of type '' @ [CHR 0x27] @ type_name v @ [CHR 0x27] @ '' has no len()''))"

text \<open>The elements a \<open>for\<close> loop or a comprehension visits.\<close>

fun py_iter :: "jv \<Rightarrow> exn + jv list" where
  "py_iter (JList xs) = Inr xs"
| "py_iter (JDict kvs) = Inr (map (\<lambda>kv. JStr (fst kv)) kvs)"
| "py_iter (JStr s) = Inr (map (\<lambda>c. JStr [c]) s)"
| "py_iter v =
     Inl (TypeError ([CHR 0x27] @ type_name v @ [CHR 0x27] @ '' object is not iterable''))"

text \<open>\<open>x[0]\<close> where \<open>x\<close> is known to be true; a JSON dictionary has no key \<open>0\<close>.\<close>

fun py_first :: "jv \<Rightarrow> exn + jv" where
  "py_first (JList (x # xs)) = Inr x"
| "py_first (JStr (c # cs)) = Inr (JStr [c])"
| "py_first (JDict kvs) = Inl (KeyError ''0'')"
| "py_first v =
     Inl (TypeError ([CHR 0x27] @ type_name v @ [CHR 0x27] @ '' object is not subscriptable''))"

text \<open>\<open>key in x\<close> for a string \<open>key\<close> and a dictionary \<open>x\<close> (agent results are dictionaries).\<close>

fun has_key :: "string \<Rightarrow> jv \<Rightarrow> bool" where
  "has_key k (JDict kvs) = (map_of kvs k \<noteq> None)"
| "has_key k v = False"

fun is_dict :: "jv \<Rightarrow> bool" where
  "is_dict (JDict kvs) = True"
| "is_dict v = False"

text \<open>Sequencing of steps that may raise.\<close>

definition bind_ex :: "exn + 'a \<Rightarrow> ('a \<Rightarrow> exn + 'b) \<Rightarrow> exn + 'b" where
  "bind_ex m f = (case m of Inl e \<Rightarrow> Inl e | Inr a \<Rightarrow> f a)"

fun map_ex :: "('a \<Rightarrow> exn + 'b) \<Rightarrow> 'a list \<Rightarrow> exn + 'b list" where
  "map_ex f [] = Inr []"
| "map_ex f (x # xs) =
     (case f x of
        Inl e \<Rightarrow> Inl e
      | Inr y \<Rightarrow> (case map_ex f xs of Inl e \<Rightarrow> Inl e | Inr ys \<Rightarrow> Inr (y # ys)))"

section \<open>The data model\<close>

text \<open>
  Modelled from the spec: the classes \<open>TripRequest\<close>, \<open>ChatPlan\<close>, \<open>Flight\<close>, \<open>Hotel\<close>,
  \<open>ItineraryDay\<close> and \<open>ErrorItem\<close> of \<open>models/plan.py\<close>, which is not among the
  sources; the field names are those the orchestrator reads and writes. A \<open>Flight\<close>, a
  \<open>Hotel\<close> and an \<open>ItineraryDay\<close> are kept as the dictionary of their fields: the
  orchestrator treats a day given as a dictionary and a day given as an object alike.
\<close>

record trip_request =
  origin :: string
  destination :: string
  depart_date :: string
  return_date :: "string option"
  adults :: int
  children :: int
  budget :: "string option"
  preferences :: "(string \<times> jv) list"

record error_item =
  agent :: string
  message :: jv

record chat_plan =
  request :: trip_request
  flights :: "jv list"
  hotels :: "jv list"
  itinerary_days :: "jv list"
  summary :: string
  notes_text :: string
  errors :: "error_item list"
  meta_generated_at :: string
  meta_sources :: "string list"

text \<open>
  \<open>Flight(**f)\<close>, \<open>Hotel(**h)\<close>, \<open>ItineraryDay(**d)\<close>: the argument must be a mapping;
  the validation of its fields belongs to the absent classes and is taken to accept.
\<close>

fun model_new :: "jv \<Rightarrow> exn + jv" where
  "model_new (JDict kvs) = Inr (JDict kvs)"
| "model_new v = Inl (TypeError (''argument after ** must be a mapping, not '' @ type_name v))"

definition TripRequest_default :: trip_request where
  "TripRequest_default =
     \<lparr>origin = '''', destination = '''', depart_date = '''', return_date = None,
      adults = 1, children = 0, budget = None, preferences = []\<rparr>"

definition ChatPlan_new :: "trip_request \<Rightarrow> string \<Rightarrow> string \<Rightarrow> error_item list \<Rightarrow> chat_plan" where
  "ChatPlan_new req s n errs =
     \<lparr>request = req, flights = [], hotels = [], itinerary_days = [], summary = s, notes_text = n,
      errors = errs, meta_generated_at = '''', meta_sources = []\<rparr>"

section \<open>The component selector: \<open>Orchestrator._check_missing_information\<close>\<close>

text \<open>\<open>str.isspace\<close> on one character, for the characters below 256.\<close>

definition is_space :: "char \<Rightarrow> bool" where
  "is_space c =
     (let n = (of_char c :: nat)
      in (9 \<le> n \<and> n \<le> 13) \<or> (28 \<le> n \<and> n \<le> 32) \<or> n = 133 \<or> n = 160)"

definition py_strip :: "string \<Rightarrow> string" where
  "py_strip s = rev (dropWhile is_space (rev (dropWhile is_space s)))"

text \<open>\<open>not x or not x.strip()\<close> for a string field \<open>x\<close>.\<close>

definition field_missing :: "string \<Rightarrow> bool" where
  "field_missing x = (x = '''' \<or> py_strip x = '''')"

text \<open>\<open>if name not in missing: missing.append(name)\<close>.\<close>

definition append_new :: "string list \<Rightarrow> string \<Rightarrow> string list" where
  "append_new missing name' = (if name' \<in> set missing then missing else missing @ [name'])"

definition check_missing_information :: "trip_request \<Rightarrow> string list \<Rightarrow> string list" where
  "check_missing_information intent requested_components =
     (let trip_length =
            (if preferences intent \<noteq> [] then map_of (preferences intent) ''trip_length''
             else None);
          no_trip_length = (case trip_length of None \<Rightarrow> True | Some v \<Rightarrow> \<not> truthy v);
          no_return = (case return_date intent of None \<Rightarrow> True | Some r \<Rightarrow> r = '''');
          m0 = [];
          m1 = (if ''FLIGHTS'' \<in> set requested_components
                then (let a = (if field_missing (destination intent) then m0 @ [''destination''] else m0);
                          b = (if field_missing (depart_date intent) then a @ [''depart_date''] else a)
                      in (if field_missing (origin intent) then b @ [''origin''] else b))
                else m0);
          m2 = (if ''HOTELS'' \<in> set requested_components
                then (let a = (if field_missing (destination intent)
                               then append_new m1 ''destination'' else m1)
                      in (if destination intent \<noteq> '''' \<and> field_missing (depart_date intent)
                          then append_new a ''depart_date'' else a))
                else m1);
          m3 = (if ''ITINERARY'' \<in> set requested_components
                then (let a = (if field_missing (destination intent)
                               then append_new m2 ''destination'' else m2);
                          b = (if destination intent \<noteq> '''' \<and> field_missing (depart_date intent)
                               then append_new a ''depart_date'' else a)
                      in (if destination intent \<noteq> '''' \<and> depart_date intent \<noteq> ''''
                          then (if no_return \<and> no_trip_length then b @ [''trip_length''] else b)
                          else b))
                else m2)
      in m3)"

section \<open>The world the orchestrator acts on\<close>

text \<open>
  Segments are what the orchestrator hands to \<open>segment_callback\<close>; the constructors stand
  for \<open>create_text_chunk\<close>, \<open>create_flights_segment\<close>, \<open>create_hotels_segment\<close>,
  \<open>create_itinerary_segment\<close>, \<open>create_summary_segment\<close> and \<open>create_error_segment\<close> of
  \<open>utils/sse.py\<close> with their arguments. The sink appends and does not raise.
\<close>

datatype segment =
    TextChunk string int
  | FlightsSegment jv int bool
  | HotelsSegment jv int bool
  | ItinerarySegment jv int bool
  | SummarySegment string string bool
  | ErrorSegment string string

text \<open>The moments at which a sub-agent coroutine is entered and left.\<close>

datatype agent_call = Called string | Returned string

text \<open>
  \<open>plans\<close> is the store of plan objects: a Python variable holding a plan holds a
  reference (an address), and an assignment \<open>a = b\<close> copies the reference, not the plan.
\<close>

record world =
  plans :: "nat \<Rightarrow> chat_plan"
  sent :: "segment list"
  calls :: "agent_call list"

definition send :: "segment \<Rightarrow> world \<Rightarrow> world" where
  "send seg w = w\<lparr>sent := sent w @ [seg]\<rparr>"

definition log_call :: "agent_call \<Rightarrow> world \<Rightarrow> world" where
  "log_call c w = w\<lparr>calls := calls w @ [c]\<rparr>"

text \<open>
  The external collaborators (language model calls, search agents, persistence, the clock):
  each is a parameter, and each may raise. \<open>plan_itinerary_agent\<close> also gives the lists of
  days it passes to \<open>day_callback\<close>, in order, before it returns or raises.
  \<open>generate_summary\<close> is \<open>Orchestrator._generate_summary\<close>, which asks the language model
  and returns the texts stored under \<open>"summary"\<close> and \<open>"notes"\<close>.
\<close>

record collaborators =
  understand_intent :: "string \<Rightarrow> exn + trip_request"
  search_flights_agent :: "trip_request \<Rightarrow> exn + jv"
  search_hotels_agent :: "trip_request \<Rightarrow> exn + jv"
  plan_itinerary_agent :: "trip_request \<Rightarrow> jv list list \<times> (exn + jv)"
  generate_summary :: "trip_request \<Rightarrow> (string \<times> jv) list \<Rightarrow> string list option \<Rightarrow> exn + string \<times> string"
  save_to_supabase :: "string \<Rightarrow> string \<Rightarrow> chat_plan \<Rightarrow> exn + unit"
  utcnow_isoformat :: string
  natural_dates :: "string \<Rightarrow> string list"

section \<open>The agent supervisor\<close>

subsection \<open>The three runners\<close>

text \<open>
  \<open>Orchestrator._run_flight_agent\<close>. The log lines evaluate \<open>len(flights)\<close>,
  \<open>flights[0]\<close> and \<open>flight.get(...)\<close> for the first three flights, and raise where these do.
\<close>

definition flights_of_result :: "jv \<Rightarrow> exn + jv" where
  "flights_of_result result =
     bind_ex (py_get result ''flights'' (JList [])) (\<lambda>flights'.
     bind_ex (py_len flights') (\<lambda>_.
     bind_ex (if truthy flights'
              then bind_ex (py_first flights') (\<lambda>_.
                   bind_ex (py_iter flights') (\<lambda>fs.
                   map_ex (\<lambda>f. py_get f ''currency'' (JStr ''USD'')) (take 3 fs)))
              else Inr []) (\<lambda>_.
     Inr flights')))"

definition run_flight_agent :: "collaborators \<Rightarrow> trip_request \<Rightarrow> world \<Rightarrow> (exn + jv) \<times> world" where
  "run_flight_agent env intent w =
     (let w1 = log_call (Called ''FLIGHTS'') w;
          result =
            (case search_flights_agent env intent of
               Inl e \<Rightarrow>
                 JDict [(''flights'', JList []),
                        (''reasoning'', JStr (''Error searching flights: '' @ str_exn e))]
             | Inr r \<Rightarrow> r)
      in (case flights_of_result result of
            Inl e \<Rightarrow> (Inl e, log_call (Returned ''FLIGHTS'') w1)
          | Inr flights' \<Rightarrow>
              (Inr result, log_call (Returned ''FLIGHTS'') (send (FlightsSegment flights' 0 False) w1))))"

text \<open>\<open>Orchestrator._run_hotel_agent\<close>: an exception of the search agent is not caught.\<close>

definition run_hotel_agent :: "collaborators \<Rightarrow> trip_request \<Rightarrow> world \<Rightarrow> (exn + jv) \<times> world" where
  "run_hotel_agent env intent w =
     (let w1 = log_call (Called ''HOTELS'') w
      in (case search_hotels_agent env intent of
            Inl e \<Rightarrow> (Inl e, log_call (Returned ''HOTELS'') w1)
          | Inr result \<Rightarrow>
              (case py_get result ''hotels'' (JList []) of
                 Inl e \<Rightarrow> (Inl e, log_call (Returned ''HOTELS'') w1)
               | Inr hotels' \<Rightarrow>
                   (Inr result,
                    log_call (Returned ''HOTELS'') (send (HotelsSegment hotels' 0 False) w1)))))"

text \<open>
  \<open>Orchestrator._run_itinerary_agent\<close>. \<open>day_callback\<close> streams each list of days the agent
  hands it; after the agent has returned, the whole list is streamed once more when it is
  not empty.
\<close>

definition day_callback :: "jv list \<Rightarrow> world \<Rightarrow> world" where
  "day_callback all_days_list w =
     send (ItinerarySegment (JList all_days_list) (int (length all_days_list) - 1) False) w"

definition run_itinerary_agent :: "collaborators \<Rightarrow> trip_request \<Rightarrow> world \<Rightarrow> (exn + jv) \<times> world" where
  "run_itinerary_agent env intent w =
     (let w1 = log_call (Called ''ITINERARY'') w
      in (case plan_itinerary_agent env intent of
            (streamed, outcome) \<Rightarrow>
              (let w2 = fold day_callback streamed w1
               in (case outcome of
                     Inl e \<Rightarrow> (Inl e, log_call (Returned ''ITINERARY'') w2)
                   | Inr result \<Rightarrow>
                       (case bind_ex (py_get result ''itinerary'' (JDict [])) (\<lambda>itinerary_data.
                             bind_ex (py_get itinerary_data ''days'' (JList [])) (\<lambda>days.
                             if truthy days
                             then bind_ex (py_len days) (\<lambda>n. Inr (Some (days, n)))
                             else Inr None)) of
                          Inl e \<Rightarrow> (Inl e, log_call (Returned ''ITINERARY'') w2)
                        | Inr None \<Rightarrow> (Inr result, log_call (Returned ''ITINERARY'') w2)
                        | Inr (Some (days, n)) \<Rightarrow>
                            (Inr result,
                             log_call (Returned ''ITINERARY'')
                               (send (ItinerarySegment days (n - 1) False) w2)))))))"

subsection \<open>\<open>Orchestrator._run_agents_parallel\<close>\<close>

text \<open>\<open>str.lower\<close> on the ASCII letters of an agent name.\<close>

definition lower_char :: "char \<Rightarrow> char" where
  "lower_char c =
     (let n = (of_char c :: nat) in if 65 \<le> n \<and> n \<le> 90 then char_of (n + 32) else c)"

definition py_lower :: "string \<Rightarrow> string" where
  "py_lower s = map lower_char s"

text \<open>\<open>d[k] = v\<close> on a dictionary in insertion order.\<close>

fun dict_set :: "(string \<times> 'v) list \<Rightarrow> string \<Rightarrow> 'v \<Rightarrow> (string \<times> 'v) list" where
  "dict_set [] k v = [(k, v)]"
| "dict_set ((k', v') # kvs) k v =
     (if k' = k then (k, v) # kvs else (k', v') # dict_set kvs k v)"

text \<open>The dictionary stored for an agent whose task raised.\<close>

definition error_result :: "string \<Rightarrow> exn \<Rightarrow> jv" where
  "error_result agent_name e = JDict (dict_set [(''error'', JStr (str_exn e))] (py_lower agent_name) (JList []))"

definition run_agent :: "collaborators \<Rightarrow> string \<Rightarrow> trip_request \<Rightarrow> world \<Rightarrow> (exn + jv) \<times> world" where
  "run_agent env agent_name intent w =
     (if agent_name = ''FLIGHTS'' then run_flight_agent env intent w
      else if agent_name = ''HOTELS'' then run_hotel_agent env intent w
      else run_itinerary_agent env intent w)"

text \<open>
  One turn of the loop \<open>for agent_name, task in tasks: ... result = await task\<close>. A task is
  a coroutine object that has not been started; \<open>await task\<close> runs it, and the loop goes on
  only when it has returned or raised. After the task, a log line reads
  \<open>len(result.get("flights", []))\<close> for the flights.
\<close>

definition await_task ::
  "collaborators \<Rightarrow> trip_request \<Rightarrow> string \<Rightarrow> (string \<times> jv) list \<times> world \<Rightarrow> (string \<times> jv) list \<times> world" where
  "await_task env intent agent_name st =
     (case st of
        (results, w) \<Rightarrow>
          (case run_agent env agent_name intent w of
             (Inl e, w') \<Rightarrow> (dict_set results agent_name (error_result agent_name e), w')
           | (Inr result, w') \<Rightarrow>
               (case (if agent_name = ''FLIGHTS'' \<and> is_dict result
                      then bind_ex (py_get result ''flights'' (JList [])) py_len
                      else Inr 0) of
                  Inl e \<Rightarrow> (dict_set results agent_name (error_result agent_name e), w')
                | Inr _ \<Rightarrow> (dict_set results agent_name result, w'))))"

definition agent_tasks :: "string list \<Rightarrow> string list" where
  "agent_tasks agents_needed =
     (if ''FLIGHTS'' \<in> set agents_needed then [''FLIGHTS''] else []) @
     (if ''HOTELS'' \<in> set agents_needed then [''HOTELS''] else []) @
     (if ''ITINERARY'' \<in> set agents_needed then [''ITINERARY''] else [])"

definition run_agents_parallel ::
  "collaborators \<Rightarrow> trip_request \<Rightarrow> string list \<Rightarrow> world \<Rightarrow> (string \<times> jv) list \<times> world" where
  "run_agents_parallel env intent agents_needed w =
     fold (await_task env intent) (agent_tasks agents_needed) ([], w)"

section \<open>The plan assembler: \<open>Orchestrator._build_plan\<close>\<close>

text \<open>\<open>results.get(name, {})\<close> on the result mapping.\<close>

definition results_get :: "(string \<times> jv) list \<Rightarrow> string \<Rightarrow> jv" where
  "results_get results agent_name =
     (case map_of results agent_name of None \<Rightarrow> JDict [] | Some r \<Rightarrow> r)"

text \<open>\<open>needle in s\<close> for two strings.\<close>

fun contains_str :: "string \<Rightarrow> string \<Rightarrow> bool" where
  "contains_str needle [] = (needle = [])"
| "contains_str needle (c # cs) =
     (take (length needle) (c # cs) = needle \<or> contains_str needle cs)"

text \<open>\<open>"error" in result\<close> and \<open>result["error"]\<close>.\<close>

fun py_in :: "string \<Rightarrow> jv \<Rightarrow> exn + bool" where
  "py_in k (JDict kvs) = Inr (map_of kvs k \<noteq> None)"
| "py_in k (JList xs) = Inr (JStr k \<in> set xs)"
| "py_in k (JStr s) = Inr (contains_str k s)"
| "py_in k v =
     Inl (TypeError (''argument of type '' @ [CHR 0x27] @ type_name v @ [CHR 0x27] @ '' is not iterable''))"

fun py_item :: "jv \<Rightarrow> string \<Rightarrow> exn + jv" where
  "py_item (JDict kvs) k =
     (case map_of kvs k of None \<Rightarrow> Inl (KeyError ([CHR 0x27] @ k @ [CHR 0x27])) | Some v \<Rightarrow> Inr v)"
| "py_item v k = Inl (TypeError (''indices must be integers''))"

fun collect_errors :: "(string \<times> jv) list \<Rightarrow> exn + error_item list" where
  "collect_errors [] = Inr []"
| "collect_errors ((agent_name, result) # rest) =
     bind_ex (py_in ''error'' result) (\<lambda>has_error.
     bind_ex (if has_error
              then bind_ex (py_item result ''error'') (\<lambda>m. Inr [\<lparr>agent = agent_name, message = m\<rparr>])
              else Inr []) (\<lambda>item.
     bind_ex (collect_errors rest) (\<lambda>items. Inr (item @ items))))"

definition all_components :: "string list" where
  "all_components = [''FLIGHTS'', ''HOTELS'', ''ITINERARY'']"

text \<open>\<open>requested_components or ["FLIGHTS", "HOTELS", "ITINERARY"]\<close>.\<close>

definition or_all_components :: "string list option \<Rightarrow> string list" where
  "or_all_components requested_components =
     (case requested_components of None \<Rightarrow> all_components | Some cs \<Rightarrow> if cs = [] then all_components else cs)"

definition build_plan ::
  "collaborators \<Rightarrow> trip_request \<Rightarrow> (string \<times> jv) list \<Rightarrow> string \<times> string \<Rightarrow> string list option \<Rightarrow> exn + chat_plan" where
  "build_plan env intent results summary' requested_components =
     (let requested = or_all_components requested_components;
          plan = ChatPlan_new intent (fst summary') (snd summary') []
      in bind_ex (if ''FLIGHTS'' \<in> set requested
                  then bind_ex (py_get (results_get results ''FLIGHTS'') ''flights'' (JList [])) (\<lambda>flights_data.
                       bind_ex (py_len flights_data) (\<lambda>_.
                       bind_ex (if truthy flights_data then py_first flights_data else Inr JNone) (\<lambda>_.
                       bind_ex (py_iter flights_data) (map_ex model_new))))
                  else Inr []) (\<lambda>fl.
         bind_ex (if ''HOTELS'' \<in> set requested
                  then bind_ex (py_get (results_get results ''HOTELS'') ''hotels'' (JList [])) (\<lambda>hotels_data.
                       bind_ex (py_iter hotels_data) (map_ex model_new))
                  else Inr []) (\<lambda>ho.
         bind_ex (if ''ITINERARY'' \<in> set requested
                  then bind_ex (py_get (results_get results ''ITINERARY'') ''itinerary'' (JDict [])) (\<lambda>itinerary_data.
                       bind_ex (py_get itinerary_data ''days'' (JList [])) (\<lambda>days_data.
                       bind_ex (py_iter days_data) (map_ex model_new)))
                  else Inr []) (\<lambda>ds.
         bind_ex (collect_errors results) (\<lambda>errs.
         Inr (plan\<lparr>flights := fl, hotels := ho, itinerary_days := ds, errors := errs,
                   meta_generated_at := utcnow_isoformat env,
                   meta_sources := [''SerpAPI'', ''Tavily'']\<rparr>))))))"

section \<open>\<open>Orchestrator.process_request_stream\<close> from the agents on\<close>

text \<open>
  The log lines after the agents have run: for each dictionary among the results they read
  \<open>len(result.get("flights", []))\<close>, \<open>len(result.get("hotels", []))\<close> or
  \<open>len(result.get("itinerary", {}).get("days", []))\<close>.
\<close>

fun log_results :: "(string \<times> jv) list \<Rightarrow> exn + unit" where
  "log_results [] = Inr ()"
| "log_results ((agent_name, result) # rest) =
     bind_ex (if is_dict result
              then (if agent_name = ''FLIGHTS''
                    then bind_ex (py_get result ''flights'' (JList [])) py_len
                    else if agent_name = ''HOTELS''
                    then bind_ex (py_get result ''hotels'' (JList [])) py_len
                    else if agent_name = ''ITINERARY''
                    then bind_ex (py_get result ''itinerary'' (JDict [])) (\<lambda>it.
                         bind_ex (py_get it ''days'' (JList [])) py_len)
                    else Inr 0)
              else Inr 0) (\<lambda>_. log_results rest)"

text \<open>
  The steps from \<open>_run_agents_parallel\<close> to the returned plan, and the handler of the
  enclosing \<open>try\<close>. The progress reporter (the shimmer task) is not modelled. The result is
  the returned plan and the world.
\<close>

definition process_request_stream_agents ::
  "collaborators \<Rightarrow> string \<Rightarrow> trip_request \<Rightarrow> string list \<Rightarrow> string list \<Rightarrow> world \<Rightarrow> chat_plan \<times> world" where
  "process_request_stream_agents env user_message intent requested_components agents_needed w =
     (case run_agents_parallel env intent agents_needed w of
        (results, w1) \<Rightarrow>
          (let attempt =
                 (case log_results results of
                    Inl e \<Rightarrow> (Inl e, w1)
                  | Inr _ \<Rightarrow>
                      (let w2 = send (TextChunk ''Finalizing your plan...'' 999) w1
                       in (case generate_summary env intent results (Some requested_components) of
                             Inl e \<Rightarrow> (Inl e, w2)
                           | Inr summary' \<Rightarrow>
                               (case build_plan env intent results summary' (Some requested_components) of
                                  Inl e \<Rightarrow> (Inl e, w2)
                                | Inr plan \<Rightarrow>
                                    (let w3 = send (SummarySegment (fst summary') (notes_text plan) True) w2
                                     in (case save_to_supabase env user_message (fst summary') plan of
                                           Inl e \<Rightarrow> (Inl e, w3)
                                         | Inr _ \<Rightarrow> (Inr plan, w3)))))))
           in (case attempt of
                 (Inr plan, w') \<Rightarrow> (plan, w')
               | (Inl e, w') \<Rightarrow>
                   (let msg = ''Error processing request: '' @ take 200 (str_exn e)
                    in (ChatPlan_new TripRequest_default '''' '''' [\<lparr>agent = ''ORCHESTRATOR'', message = JStr msg\<rparr>],
                        send (ErrorSegment msg ''ORCHESTRATOR'') w')))))"

section \<open>The plan editor: \<open>Orchestrator._handle_incremental_edit\<close>\<close>

text \<open>The fields of the edit intent that the modelled branches read.\<close>

record edit_intent =
  edit_type :: string
  day_number :: "int option"
  target_date :: "string option"

definition upd_plan :: "nat \<Rightarrow> (chat_plan \<Rightarrow> chat_plan) \<Rightarrow> world \<Rightarrow> world" where
  "upd_plan r f w = w\<lparr>plans := (plans w)(r := f (plans w r))\<rparr>"

subsection \<open>The branch \<open>itinerary_remove\<close>\<close>

text \<open>
  The year of each extracted date is set to the year of the trip's departure; a date that
  does not parse, or does not exist in that year, stays as it is.
\<close>

definition fix_year :: "int \<Rightarrow> string \<Rightarrow> string" where
  "fix_year depart_year date_str =
     (case strptime date_str of
        None \<Rightarrow> date_str
      | Some date_obj \<Rightarrow>
          if year date_obj \<noteq> depart_year
          then (case replace_year date_obj depart_year of
                  None \<Rightarrow> date_str
                | Some fixed_date \<Rightarrow> strftime fixed_date)
          else date_str)"

definition align_extracted_dates :: "string \<Rightarrow> string list \<Rightarrow> string list" where
  "align_extracted_dates trip_depart extracted_dates =
     (if extracted_dates \<noteq> [] \<and> trip_depart \<noteq> ''''
      then (case strptime trip_depart of
              None \<Rightarrow> extracted_dates
            | Some d \<Rightarrow> map (fix_year (year d)) extracted_dates)
      else extracted_dates)"

text \<open>
  The target date after the message has been consulted: a date found in the message
  replaces the one of the edit intent.
\<close>

definition effective_target_date :: "string option \<Rightarrow> string list \<Rightarrow> string option" where
  "effective_target_date target extracted_dates =
     (case extracted_dates of
        [] \<Rightarrow> target
      | e0 # _ \<Rightarrow>
          if target = None \<or> target = Some ''''
          then Some e0
          else if e0 \<noteq> '''' \<and> iso_prefix e0 then Some e0 else target)"

definition normalize_target :: "string \<Rightarrow> string" where
  "normalize_target t =
     (if iso_prefix t then t
      else (case strptime t of None \<Rightarrow> t | Some parsed \<Rightarrow> strftime parsed))"

text \<open>\<open>day.get("date", "")\<close> for a dictionary, \<open>getattr(day, "date", "")\<close> otherwise.\<close>

fun day_date :: "jv \<Rightarrow> jv" where
  "day_date (JDict kvs) = (case map_of kvs ''date'' of None \<Rightarrow> JStr '''' | Some v \<Rightarrow> v)"
| "day_date v = JStr ''''"

text \<open>The first index whose element satisfies \<open>P\<close> (the loop with \<open>break\<close>).\<close>

fun find_idx :: "('a \<Rightarrow> bool) \<Rightarrow> 'a list \<Rightarrow> nat option" where
  "find_idx P [] = None"
| "find_idx P (x # xs) = (if P x then Some 0 else map_option Suc (find_idx P xs))"

definition day_to_remove :: "jv list \<Rightarrow> string option \<Rightarrow> int option \<Rightarrow> nat option" where
  "day_to_remove days target number =
     (if target \<noteq> None \<and> target \<noteq> Some ''''
      then find_idx (\<lambda>d. day_date d = JStr (normalize_target (the target))) days
      else (case number of
              None \<Rightarrow> None
            | Some n \<Rightarrow>
                if n \<noteq> 0 \<and> 1 \<le> n \<and> n \<le> int (length days) then Some (nat (n - 1)) else None))"

text \<open>\<open>days.pop(i)\<close> for an index in range.\<close>

definition pop_at :: "nat \<Rightarrow> 'a list \<Rightarrow> 'a list" where
  "pop_at i xs = take i xs @ drop (Suc i) xs"

definition could_not_find :: string where
  "could_not_find = ''Could not find the specified day to remove. Please check the date or day number.''"

text \<open>
  \<open>days\<close> is the list object inside the existing plan, so \<open>days.pop\<close> changes that plan;
  the remaining days are then rebuilt and stored into \<open>updated_plan\<close>.
\<close>

definition edit_itinerary_remove ::
  "collaborators \<Rightarrow> string \<Rightarrow> edit_intent \<Rightarrow> nat \<Rightarrow> nat \<Rightarrow> world \<Rightarrow> (exn + unit) \<times> world" where
  "edit_itinerary_remove env user_message intent' existing_plan updated_plan w =
     (let trip = request (plans w existing_plan);
          days = itinerary_days (plans w existing_plan);
          extracted_dates =
            align_extracted_dates (depart_date trip) (extract_dates (natural_dates env) user_message);
          target = effective_target_date (target_date intent') extracted_dates
      in (case day_to_remove days target (day_number intent') of
            Some i \<Rightarrow>
              (let w1 = send (TextChunk ''Removing day from itinerary...'' 1) w;
                   w2 = upd_plan existing_plan (\<lambda>p. p\<lparr>itinerary_days := pop_at i days\<rparr>) w1
               in (case map_ex (\<lambda>d. if is_dict d then model_new d else Inr d)
                          (itinerary_days (plans w2 existing_plan)) of
                     Inl e \<Rightarrow> (Inl e, w2)
                   | Inr updated_days \<Rightarrow>
                       (Inr (), upd_plan updated_plan (\<lambda>p. p\<lparr>itinerary_days := updated_days\<rparr>) w2)))
          | None \<Rightarrow> (Inr (), send (TextChunk could_not_find 1) w)))"

subsection \<open>The branches \<open>flights\<close> and \<open>hotels\<close>\<close>

text \<open>
  \<open>intent = existing_plan.request\<close> names the request object inside the existing plan:
  the assignments to \<open>intent.origin\<close> and the like change that plan at once.
\<close>

definition set_request :: "nat \<Rightarrow> (trip_request \<Rightarrow> trip_request) \<Rightarrow> world \<Rightarrow> world" where
  "set_request r f w = upd_plan r (\<lambda>p. p\<lparr>request := f (request p)\<rparr>) w"

definition edit_flights ::
  "collaborators \<Rightarrow> string \<Rightarrow> nat \<Rightarrow> nat \<Rightarrow> world \<Rightarrow> (exn + unit) \<times> world" where
  "edit_flights env user_message existing_plan updated_plan w =
     (case understand_intent env user_message of
        Inl e \<Rightarrow> (Inl e, w)
      | Inr new_intent \<Rightarrow>
          (let w1 = (if origin new_intent \<noteq> ''''
                     then set_request existing_plan (\<lambda>r. r\<lparr>origin := origin new_intent\<rparr>) w else w);
               w2 = (if destination new_intent \<noteq> ''''
                     then set_request existing_plan (\<lambda>r. r\<lparr>destination := destination new_intent\<rparr>) w1
                     else w1);
               w3 = (if depart_date new_intent \<noteq> ''''
                     then set_request existing_plan (\<lambda>r. r\<lparr>depart_date := depart_date new_intent\<rparr>) w2
                     else w2);
               w4 = (if return_date new_intent \<noteq> None \<and> return_date new_intent \<noteq> Some ''''
                     then set_request existing_plan (\<lambda>r. r\<lparr>return_date := return_date new_intent\<rparr>) w3
                     else w3);
               w5 = send (TextChunk ''Updating flights...'' 1) w4
           in (case run_flight_agent env (request (plans w5 existing_plan)) w5 of
                 (Inl e, w6) \<Rightarrow> (Inl e, w6)
               | (Inr flight_result, w6) \<Rightarrow>
                   (case bind_ex (py_get flight_result ''flights'' (JList [])) (\<lambda>fs.
                         bind_ex (py_iter fs) (map_ex model_new)) of
                      Inl e \<Rightarrow> (Inl e, w6)
                    | Inr fl \<Rightarrow> (Inr (), upd_plan updated_plan (\<lambda>p. p\<lparr>flights := fl\<rparr>) w6)))))"

definition edit_hotels ::
  "collaborators \<Rightarrow> string \<Rightarrow> nat \<Rightarrow> nat \<Rightarrow> world \<Rightarrow> (exn + unit) \<times> world" where
  "edit_hotels env user_message existing_plan updated_plan w =
     (case understand_intent env user_message of
        Inl e \<Rightarrow> (Inl e, w)
      | Inr new_intent \<Rightarrow>
          (let w1 = (if destination new_intent \<noteq> ''''
                     then set_request existing_plan (\<lambda>r. r\<lparr>destination := destination new_intent\<rparr>) w
                     else w);
               w2 = (if depart_date new_intent \<noteq> ''''
                     then set_request existing_plan (\<lambda>r. r\<lparr>depart_date := depart_date new_intent\<rparr>) w1
                     else w1);
               w3 = send (TextChunk ''Updating hotels...'' 1) w2
           in (case run_hotel_agent env (request (plans w3 existing_plan)) w3 of
                 (Inl e, w4) \<Rightarrow> (Inl e, w4)
               | (Inr hotel_result, w4) \<Rightarrow>
                   (case bind_ex (py_get hotel_result ''hotels'' (JList [])) (\<lambda>hs.
                         bind_ex (py_iter hs) (map_ex model_new)) of
                      Inl e \<Rightarrow> (Inl e, w4)
                    | Inr ho \<Rightarrow> (Inr (), upd_plan updated_plan (\<lambda>p. p\<lparr>hotels := ho\<rparr>) w4)))))"

subsection \<open>The whole editor\<close>

text \<open>
  After the branch: the summary is regenerated, streamed and the plan saved. The results
  handed to \<open>_generate_summary\<close> are rebuilt from the plan.
\<close>

definition edit_finish :: "collaborators \<Rightarrow> string \<Rightarrow> nat \<Rightarrow> world \<Rightarrow> (exn + unit) \<times> world" where
  "edit_finish env user_message updated_plan w =
     (let p = plans w updated_plan
      in (case generate_summary env (request p)
                 [(''FLIGHTS'', JDict [(''flights'', JList (flights p))]),
                  (''HOTELS'', JDict [(''hotels'', JList (hotels p))]),
                  (''ITINERARY'', JDict [(''itinerary'', JDict [(''days'', JList (itinerary_days p))])])]
                 None of
            Inl e \<Rightarrow> (Inl e, w)
          | Inr summary' \<Rightarrow>
              (let w1 = upd_plan updated_plan (\<lambda>p. p\<lparr>summary := fst summary'\<rparr>) w;
                   p1 = plans w1 updated_plan;
                   w2 = send (SummarySegment (summary p1) (notes_text p1) True) w1
               in (case save_to_supabase env user_message (summary p1) p1 of
                     Inl e \<Rightarrow> (Inl e, w2)
                   | Inr _ \<Rightarrow> (Inr (), w2)))))"

text \<open>
  The branches \<open>dates\<close>, \<open>itinerary_day\<close> (with a day number), \<open>itinerary_activity\<close> and
  \<open>itinerary_swap\<close> are outside this model.
\<close>

definition unmodelled_edit :: "edit_intent \<Rightarrow> bool" where
  "unmodelled_edit intent' =
     (edit_type intent' = ''dates'' \<or>
      (edit_type intent' = ''itinerary_day'' \<and> day_number intent' \<noteq> None \<and> day_number intent' \<noteq> Some 0) \<or>
      edit_type intent' = ''itinerary_activity'' \<or>
      edit_type intent' = ''itinerary_swap'')"

text \<open>
  The editor. \<open>updated_plan = existing_plan\<close> copies the reference. The result is the
  reference the editor returns, and the world; an exception anywhere in the \<open>try\<close> is
  logged and \<open>existing_plan\<close> is returned. \<open>None\<close> stands for a branch outside the model.
\<close>

definition handle_incremental_edit ::
  "collaborators \<Rightarrow> string \<Rightarrow> edit_intent \<Rightarrow> nat \<Rightarrow> world \<Rightarrow> (nat \<times> world) option" where
  "handle_incremental_edit env user_message intent' existing_plan w =
     (if unmodelled_edit intent' then None
      else
        (let w0 = send (TextChunk (''Updating '' @ edit_type intent' @ ''...'') 0) w;
             updated_plan = existing_plan;
             branch =
               (if edit_type intent' = ''flights''
                then edit_flights env user_message existing_plan updated_plan w0
                else if edit_type intent' = ''hotels''
                then edit_hotels env user_message existing_plan updated_plan w0
                else if edit_type intent' = ''itinerary_remove''
                then edit_itinerary_remove env user_message intent' existing_plan updated_plan w0
                else (Inr (), w0))
         in Some (case branch of
                    (Inl e, w1) \<Rightarrow> (existing_plan, w1)
                  | (Inr _, w1) \<Rightarrow>
                      (case edit_finish env user_message updated_plan w1 of
                         (Inl e, w2) \<Rightarrow> (existing_plan, w2)
                       | (Inr _, w2) \<Rightarrow> (updated_plan, w2)))))"

text \<open>The plan a caller receives: what the returned reference points to.\<close>

definition returned_plan :: "nat \<times> world \<Rightarrow> chat_plan" where
  "returned_plan res = plans (snd res) (fst res)"

section \<open>Inputs used in the examples below\<close>

definition at_time :: "int \<Rightarrow> int \<Rightarrow> int \<Rightarrow> int \<Rightarrow> int \<Rightarrow> datetime" where
  "at_time y m d h mi =
     \<lparr>year = y, month = m, day = d, hour = h, minute = mi, second = 0, microsecond = 0\<rparr>"

text \<open>Whether one date string denotes an earlier day than another.\<close>

definition date_before :: "string \<Rightarrow> string \<Rightarrow> bool" where
  "date_before a b =
     (case (strptime a, strptime b) of (Some x, Some y) \<Rightarrow> dt_lt x y | _ \<Rightarrow> False)"

definition trip :: "string \<Rightarrow> string \<Rightarrow> string \<Rightarrow> string option \<Rightarrow> trip_request" where
  "trip orig dest dep ret =
     \<lparr>origin = orig, destination = dest, depart_date = dep, return_date = ret,
      adults = 1, children = 0, budget = None, preferences = []\<rparr>"

definition a_day :: "string \<Rightarrow> jv" where
  "a_day d = JDict [(''date'', JStr d), (''blocks'', JList [])]"

definition five_days :: "jv list" where
  "five_days =
     map a_day [''2024-12-20'', ''2024-12-21'', ''2024-12-22'', ''2024-12-23'', ''2024-12-24'']"

text \<open>A plan for Rome with five itinerary days, stored at address 0.\<close>

definition rome_plan :: chat_plan where
  "rome_plan =
     (ChatPlan_new (trip ''NYC'' ''Rome'' ''2024-12-20'' (Some ''2024-12-25'')) ''A trip to Rome'' '''' [])
       \<lparr>itinerary_days := five_days\<rparr>"

definition rome_world :: world where
  "rome_world = \<lparr>plans = (\<lambda>_. rome_plan), sent = [], calls = []\<rparr>"

definition remove_intent :: "string option \<Rightarrow> int option \<Rightarrow> edit_intent" where
  "remove_intent t n = \<lparr>edit_type = ''itinerary_remove'', day_number = n, target_date = t\<rparr>"

text \<open>
  Collaborators that all succeed: one flight, one hotel, a one-day itinerary; the language
  model reads the destination Paris out of the edit message.
\<close>

definition good_flights :: jv where
  "good_flights = JDict [(''flights'', JList [JDict [(''airline'', JStr ''AZ''), (''price'', JInt 420)]])]"

definition good_hotels :: jv where
  "good_hotels = JDict [(''hotels'', JList [JDict [(''name'', JStr ''Albergo'')]])]"

definition good_itinerary :: jv where
  "good_itinerary = JDict [(''itinerary'', JDict [(''days'', JList [a_day ''2024-12-20''])])]"

definition calm :: collaborators where
  "calm =
     \<lparr>understand_intent = (\<lambda>_. Inr (trip '''' ''Paris'' '''' None)),
      search_flights_agent = (\<lambda>_. Inr good_flights),
      search_hotels_agent = (\<lambda>_. Inr good_hotels),
      plan_itinerary_agent = (\<lambda>_. ([], Inr good_itinerary)),
      generate_summary = (\<lambda>_ _ _. Inr (''Here is your plan.'', '''')),
      save_to_supabase = (\<lambda>_ _ _. Inr ()),
      utcnow_isoformat = ''2024-11-01T09:00:00'',
      natural_dates = (\<lambda>_. [])\<rparr>"

definition hotels_down :: collaborators where
  "hotels_down = calm\<lparr>search_hotels_agent := (\<lambda>_. Inl (Exception ''Network error''))\<rparr>"

definition itinerary_down :: collaborators where
  "itinerary_down = calm\<lparr>plan_itinerary_agent := (\<lambda>_. ([], Inl (Exception ''Network error'')))\<rparr>"

definition flights_down :: collaborators where
  "flights_down = calm\<lparr>search_flights_agent := (\<lambda>_. Inl (Exception ''Network error''))\<rparr>"

definition empty_world :: world where
  "empty_world = \<lparr>plans = (\<lambda>_. ChatPlan_new TripRequest_default '''' '''' []), sent = [], calls = []\<rparr>"

definition rome_request :: trip_request where
  "rome_request = trip ''NYC'' ''Rome'' ''2024-12-20'' (Some ''2024-12-25'')"

text \<open>The plan returned when the orchestration as a whole fails on an exception with text \<open>m\<close>.\<close>

definition orchestrator_error_plan :: "string \<Rightarrow> chat_plan" where
  "orchestrator_error_plan m =
     ChatPlan_new TripRequest_default '''' ''''
       [\<lparr>agent = ''ORCHESTRATOR'', message = JStr (''Error processing request: '' @ m)\<rparr>]"

definition list_has_no_get :: string where
  "list_has_no_get = [CHR 0x27] @ ''list'' @ [CHR 0x27] @ '' object has no attribute '' @ [CHR 0x27] @ ''get'' @ [CHR 0x27]"

section \<open>The missing-field requirements in the words of the spec\<close>



section \<open>Canonical date strings and the year the rule chooses\<close>


text \<open>
  The year the code gives to a day and month at the reference time \<open>now\<close>: the next year
  when the date at midnight in the current year is before \<open>now\<close>, the current year
  otherwise; \<open>None\<close> when the date does not exist in the current year.
\<close>

definition rule_year :: "datetime \<Rightarrow> int \<Rightarrow> int \<Rightarrow> int option" where
  "rule_year now m d =
     (case datetime_ymd (year now) m d of
        None \<Rightarrow> None
      | Some c \<Rightarrow> Some (if dt_lt c now then year now + 1 else year now))"

section \<open>Outcomes of a day removal\<close>

text \<open>
  What a caller sees after an \<open>itinerary_remove\<close> edit of the itinerary \<open>days\<close>: the day at
  index \<open>i\<close> is gone, or nothing was removed and the "could not find" text was streamed.
\<close>

definition day_removed :: "nat \<Rightarrow> jv list \<Rightarrow> nat \<times> world \<Rightarrow> bool" where
  "day_removed i days res = (itinerary_days (returned_plan res) = pop_at i days)"

definition day_not_found :: "jv list \<Rightarrow> nat \<times> world \<Rightarrow> bool" where
  "day_not_found days res =
     (itinerary_days (returned_plan res) = days \<and> TextChunk could_not_find 1 \<in> set (sent (snd res)))"

text \<open>
  Collaborators for the message "block december 22": the natural-language extraction reads
  22 December and gives it the year of the reference time.
\<close>

definition december :: collaborators where
  "december = calm\<lparr>natural_dates := (\<lambda>_. [''2026-12-22''])\<rparr>"

section \<open>Today, before today, and midnight\<close>

text \<open>The fields of a clock reading are not negative.\<close>

definition clock_ok :: "datetime \<Rightarrow> bool" where
  "clock_ok t = (0 \<le> hour t \<and> 0 \<le> minute t \<and> 0 \<le> second t \<and> 0 \<le> microsecond t)"

definition midnight :: "datetime \<Rightarrow> bool" where
  "midnight t = (hour t = 0 \<and> minute t = 0 \<and> second t = 0 \<and> microsecond t = 0)"

text \<open>Month \<open>m\<close>, day \<open>d\<close> comes earlier in the year than month \<open>m'\<close>, day \<open>d'\<close>.\<close>

definition earlier_in_year :: "int \<Rightarrow> int \<Rightarrow> int \<Rightarrow> int \<Rightarrow> bool" where
  "earlier_in_year m d m' d' = (m < m' \<or> (m = m' \<and> d < d'))"

section \<open>What the supervisor stores for an agent\<close>

text \<open>
  The entry \<open>_run_agents_parallel\<close> stores under an agent's name: the runner's result, or
  the error wrapper when the runner (or the log line after it) raised. The runners' results
  do not depend on the world.
\<close>

definition stored_result :: "collaborators \<Rightarrow> trip_request \<Rightarrow> string \<Rightarrow> jv" where
  "stored_result env intent agent_name =
     (case fst (run_agent env agent_name intent empty_world) of
        Inl e \<Rightarrow> error_result agent_name e
      | Inr result \<Rightarrow>
          (case (if agent_name = ''FLIGHTS'' \<and> is_dict result
                 then bind_ex (py_get result ''flights'' (JList [])) py_len
                 else Inr 0) of
             Inl e \<Rightarrow> error_result agent_name e
           | Inr _ \<Rightarrow> result))"

section \<open>Properties\<close>

subsection \<open>Parsing and printing dates\<close>

lemma datetime_ymd_Some:
  "datetime_ymd y m d = Some x \<Longrightarrow>
     x = \<lparr>year = y, month = m, day = d, hour = 0, minute = 0, second = 0, microsecond = 0\<rparr> \<and>
     valid_date y m d"
  by (auto simp: datetime_ymd_def split: if_splits)

lemma strptime_Some:
  assumes "strptime s = Some x"
  shows "valid_date (year x) (month x) (day x) \<and> hour x = 0 \<and> minute x = 0 \<and> second x = 0 \<and>
         microsecond x = 0 \<and> s \<noteq> ''''"
proof -
  from assms obtain y m d where "datetime_ymd y m d = Some x"
    by (auto simp: strptime_def split: option.splits list.splits if_splits prod.splits)
  from datetime_ymd_Some[OF this] assms show ?thesis
    by (auto simp: strptime_def)
qed


lemma replace_year_midnight:
  assumes "hour x = 0" "minute x = 0" "second x = 0" "microsecond x = 0"
  shows "replace_year x y = datetime_ymd y (month x) (day x)"
  using assms by (cases x) (simp add: replace_year_def datetime_ymd_def)

lemma digit_chars_conj:
  "digit_char 0 = CHR ''0'' \<and> digit_char 1 = CHR ''1'' \<and> digit_char 2 = CHR ''2'' \<and>
   digit_char 3 = CHR ''3'' \<and> digit_char 4 = CHR ''4'' \<and> digit_char 5 = CHR ''5'' \<and>
   digit_char 6 = CHR ''6'' \<and> digit_char 7 = CHR ''7'' \<and> digit_char 8 = CHR ''8'' \<and>
   digit_char 9 = CHR ''9''"
  by code_simp

lemma digit_chars:
  "digit_char 0 = CHR ''0''" "digit_char 1 = CHR ''1''" "digit_char 2 = CHR ''2''"
  "digit_char 3 = CHR ''3''" "digit_char 4 = CHR ''4''" "digit_char 5 = CHR ''5''"
  "digit_char 6 = CHR ''6''" "digit_char 7 = CHR ''7''" "digit_char 8 = CHR ''8''"
  "digit_char 9 = CHR ''9''"
  using digit_chars_conj by simp_all

lemma digit_val_digit_char: "0 \<le> n \<Longrightarrow> n \<le> 9 \<Longrightarrow> digit_val (digit_char n) = Some n"
  by (simp add: digit_val_def digit_char_def Let_def)

lemma four_digits:
  fixes y :: int
  shows "1000 * (y div 1000) + 100 * (y div 100 mod 10) + 10 * (y div 10 mod 10) + y mod 10 = y"
proof -
  have a: "y = 10 * (y div 10) + y mod 10" by simp
  have b: "y div 10 = 10 * (y div 100) + y div 10 mod 10"
    using div_mult_mod_eq[of "y div 10" 10] by (simp add: zdiv_zmult2_eq[symmetric] mult.commute)
  have c: "y div 100 = 10 * (y div 1000) + y div 100 mod 10"
    using div_mult_mod_eq[of "y div 100" 10] by (simp add: zdiv_zmult2_eq[symmetric] mult.commute)
  from a b c show ?thesis by linarith
qed

lemma parse_Y_pad4:
  assumes "0 \<le> y" "y \<le> 9999"
  shows "parse_Y (pad4 y @ rest) = Some (y, rest)"
proof -
  have b: "0 \<le> y div 1000" "y div 1000 \<le> 9" "0 \<le> y div 100 mod 10" "y div 100 mod 10 \<le> 9"
    "0 \<le> y div 10 mod 10" "y div 10 mod 10 \<le> 9" "0 \<le> y mod 10" "y mod 10 \<le> 9"
    using assms by simp_all
  have v: "digit_val (digit_char (y div 1000)) = Some (y div 1000)"
    "digit_val (digit_char (y div 100 mod 10)) = Some (y div 100 mod 10)"
    "digit_val (digit_char (y div 10 mod 10)) = Some (y div 10 mod 10)"
    "digit_val (digit_char (y mod 10)) = Some (y mod 10)"
    using b by (simp_all only: digit_val_digit_char)
  show ?thesis
    by (simp only: pad4_def append_Cons append_Nil parse_Y.simps v option.case prod.case four_digits)
qed

lemma parse_m_pad2:
  assumes "1 \<le> m" "m \<le> 12"
  shows "parse_m (pad2 m @ c # rest) = Some (m, c # rest)"
proof -
  from assms have "m = 1 \<or> m = 2 \<or> m = 3 \<or> m = 4 \<or> m = 5 \<or> m = 6 \<or> m = 7 \<or> m = 8 \<or> m = 9 \<or>
     m = 10 \<or> m = 11 \<or> m = 12" by arith
  then show ?thesis
    by (elim disjE) (simp_all add: pad2_def digit_chars is_digit_def digit_val_def)
qed

lemma parse_d_pad2_low:
  assumes "1 \<le> d" "d \<le> 9"
  shows "parse_d (pad2 d) = Some (d, [])"
proof -
  from assms have "d = 1 \<or> d = 2 \<or> d = 3 \<or> d = 4 \<or> d = 5 \<or> d = 6 \<or> d = 7 \<or> d = 8 \<or> d = 9"
    by arith
  then show ?thesis
    by (elim disjE) (simp_all add: pad2_def digit_chars is_digit_def digit_val_def)
qed

lemma parse_d_pad2_mid:
  assumes "10 \<le> d" "d \<le> 29"
  shows "parse_d (pad2 d) = Some (d, [])"
proof -
  have t: "d div 10 = 1 \<or> d div 10 = 2" using assms by arith
  have u: "0 \<le> d mod 10" "d mod 10 \<le> 9" by auto
  have e: "10 * (d div 10) + d mod 10 = d" by simp
  have dv: "digit_val (digit_char (d mod 10)) = Some (d mod 10)"
    using u by (rule digit_val_digit_char)
  have idg: "is_digit (digit_char (d mod 10))" using dv by (simp add: is_digit_def)
  from t show ?thesis
  proof
    assume a: "d div 10 = 1"
    with e have "10 + d mod 10 = d" by simp
    with a dv idg show ?thesis
      by (simp add: pad2_def digit_chars digit_val_def[of "CHR ''1''"])
  next
    assume a: "d div 10 = 2"
    with e have "20 + d mod 10 = d" by simp
    with a dv idg show ?thesis
      by (simp add: pad2_def digit_chars digit_val_def[of "CHR ''2''"])
  qed
qed

lemma parse_d_pad2_high:
  assumes "30 \<le> d" "d \<le> 31"
  shows "parse_d (pad2 d) = Some (d, [])"
proof -
  from assms have "d = 30 \<or> d = 31" by arith
  then show ?thesis
    by (elim disjE) (simp_all add: pad2_def digit_chars is_digit_def digit_val_def)
qed

lemma parse_d_pad2:
  assumes "1 \<le> d" "d \<le> 31"
  shows "parse_d (pad2 d) = Some (d, [])"
proof -
  consider "d \<le> 9" | "10 \<le> d" "d \<le> 29" | "30 \<le> d" using assms by arith
  then show ?thesis
    using assms parse_d_pad2_low parse_d_pad2_mid parse_d_pad2_high by cases auto
qed

lemma strptime_strftime:
  assumes "valid_date (year x) (month x) (day x)"
    and "hour x = 0" "minute x = 0" "second x = 0" "microsecond x = 0"
  shows "strptime (strftime x) = Some x"
proof -
  from assms(1) have y: "0 \<le> year x" "year x \<le> 9999" and m: "1 \<le> month x" "month x \<le> 12"
    and d: "1 \<le> day x" "day x \<le> 31"
    by (auto simp: valid_date_def days_in_month_def split: if_splits)
  have s: "strftime x = pad4 (year x) @ (CHR ''-'' # pad2 (month x) @ CHR ''-'' # pad2 (day x))"
    by (simp add: strftime_def)
  have p1: "parse_Y (strftime x) = Some (year x, CHR ''-'' # pad2 (month x) @ CHR ''-'' # pad2 (day x))"
    unfolding s by (rule parse_Y_pad4[OF y])
  have p2: "parse_m (pad2 (month x) @ CHR ''-'' # pad2 (day x)) = Some (month x, CHR ''-'' # pad2 (day x))"
    by (rule parse_m_pad2[OF m])
  have p3: "parse_d (pad2 (day x)) = Some (day x, [])"
    by (rule parse_d_pad2[OF d])
  have "datetime_ymd (year x) (month x) (day x) = Some x"
    using assms by (cases x) (simp add: datetime_ymd_def)
  then show ?thesis
    by (simp add: strptime_def p1 p2 p3)
qed

subsection \<open>Year disambiguation of the departure date\<close>

text \<open>
  The comparison the rule makes, read off the calendar: the date at midnight in the current
  year is before \<open>now\<close> when it is an earlier day of the year, and also when it is today
  and \<open>now\<close> is not midnight sharp.
\<close>

lemma dt_lt_midnight:
  assumes "clock_ok now"
  shows "dt_lt \<lparr>year = year now, month = m, day = d, hour = 0, minute = 0, second = 0, microsecond = 0\<rparr> now
         \<longleftrightarrow> earlier_in_year m d (month now) (day now) \<or> (m = month now \<and> d = day now \<and> \<not> midnight now)"
  using assms
  by (auto simp: dt_lt_def dt_fields_def clock_ok_def midnight_def earlier_in_year_def)

lemma rule_year_by_calendar:
  assumes "clock_ok now" and "valid_date (year now) m d"
  shows "rule_year now m d =
           Some (if earlier_in_year m d (month now) (day now) \<or>
                    (m = month now \<and> d = day now \<and> \<not> midnight now)
                 then year now + 1 else year now)"
  using assms dt_lt_midnight[OF assms(1), of m d]
  by (simp add: rule_year_def datetime_ymd_def)

lemma depart_follows_rule_year:
  assumes "strptime s = Some x" and "rule_year now (month x) (day x) = Some y"
    and "valid_date y (month x) (day x)"
  shows "normalize_depart_date now (Some s) =
           (if year x = year now \<and> y = year now then s else strftime (x\<lparr>year := y\<rparr>))"
proof -
  from strptime_Some[OF assms(1)] have mid: "hour x = 0" "minute x = 0" "second x = 0" "microsecond x = 0"
    and ne: "s \<noteq> ''''" by auto
  from assms(2) obtain c where c: "datetime_ymd (year now) (month x) (day x) = Some c"
    and y: "y = (if dt_lt c now then year now + 1 else year now)"
    by (auto simp: rule_year_def split: option.splits)
  have rc: "replace_year x (year now) = Some c"
    using c replace_year_midnight[OF mid] by simp
  have cx: "c = x\<lparr>year := year now\<rparr>"
    using rc by (auto simp: replace_year_def split: if_splits)
  show ?thesis
  proof (cases "dt_lt c now")
    case True
    with y have y1: "y = year now + 1" by simp
    then have "replace_year x (year now + 1) = Some (x\<lparr>year := y\<rparr>)"
      using assms(3) by (simp add: replace_year_def)
    with True rc ne assms(1) y1 show ?thesis
      by (simp add: normalize_depart_date_def)
  next
    case False
    with y have y0: "y = year now" by simp
    have "dt_le now c" using False
      by (auto simp: dt_le_def dt_lt_def dt_fields_def)
    with False rc ne assms(1) y0 cx show ?thesis
      by (simp add: normalize_depart_date_def)
  qed
qed

text \<open>
  Claim C1. A departure date whose day and month are today's should resolve to the current
  year: the current-year date is not strictly before today. The code compares the date at
  midnight with \<open>datetime.now()\<close>, which carries the time of day. At 10:30 on 15 June 2025
  the date 15 June is already "before now", and all three places that apply the rule (the
  normalizer of the language model's record, the regex fallback, the natural-language
  extraction) answer 2026.
\<close>

theorem depart_today_resolves_to_next_year:
  "normalize_depart_date (at_time 2025 6 15 10 30) (Some ''2025-06-15'') = ''2026-06-15'' \<and>
   fallback_depart_date (at_time 2025 6 15 10 30) ''2025-06-15'' = ''2026-06-15'' \<and>
   natural_date_str (at_time 2025 6 15 10 30) 6 15 = Some ''2026-06-15''"
  by code_simp

text \<open>Only when the reference time is midnight sharp does today's date keep the current year.\<close>

lemma depart_today_at_midnight:
  "normalize_depart_date (at_time 2025 6 15 0 0) (Some ''2025-06-15'') = ''2025-06-15''"
  by code_simp

subsection \<open>Canonical date strings\<close>







subsection \<open>The return date against the departure date\<close>

text \<open>
  For a return date whose day and month is not 29 February the normalizer does what the
  claim below says: the date it returns parses and is not before the departure date.
\<close>

lemma valid_other_year:
  assumes "valid_date y m d" and "\<not> (m = 2 \<and> d = 29)" and "1 \<le> y'" "y' \<le> 9999"
  shows "valid_date y' m d"
  using assms by (auto simp: valid_date_def days_in_month_def split: if_splits)

lemma later_year_not_before: "year a < year b \<Longrightarrow> \<not> dt_lt b a"
  by (auto simp: dt_lt_def dt_fields_def)

lemma not_le_not_lt: "\<not> dt_le a b \<Longrightarrow> \<not> dt_lt a b"
  by (simp add: dt_le_def)

lemma dt_lt_trans_le: "dt_lt a b \<Longrightarrow> \<not> dt_lt c b \<Longrightarrow> dt_lt a c"
  by (auto simp: dt_lt_def dt_fields_def)

lemma anchor_return_not_before:
  assumes dep: "strptime depart = Some depart_obj"
    and ret: "strptime r = Some return_obj"
    and nf: "\<not> (month return_obj = 2 \<and> day return_obj = 29)"
    and yr: "year depart_obj < 9999"
    and a: "anchor_return depart r return_obj = (r', return_obj')"
  shows "\<not> dt_lt return_obj' depart_obj \<and> strptime r' = Some return_obj' \<and>
         month return_obj' = month return_obj \<and> day return_obj' = day return_obj"
proof -
  from strptime_Some[OF dep] have dv: "valid_date (year depart_obj) (month depart_obj) (day depart_obj)"
    and dne: "depart \<noteq> ''''" by auto
  from strptime_Some[OF ret] have rv: "valid_date (year return_obj) (month return_obj) (day return_obj)"
    and mid: "hour return_obj = 0" "minute return_obj = 0" "second return_obj = 0" "microsecond return_obj = 0"
    by auto
  from dv have dy: "1 \<le> year depart_obj" by (simp add: valid_date_def)
  have v1: "valid_date (year depart_obj) (month return_obj) (day return_obj)"
    using valid_other_year[OF rv nf dy] yr by simp
  have v2: "valid_date (year depart_obj + 1) (month return_obj) (day return_obj)"
    using valid_other_year[OF rv nf, of "year depart_obj + 1"] dy yr by simp
  have r1: "replace_year return_obj (year depart_obj) = Some (return_obj\<lparr>year := year depart_obj\<rparr>)"
    using v1 by (simp add: replace_year_def)
  have r2: "replace_year return_obj (year depart_obj + 1) = Some (return_obj\<lparr>year := year depart_obj + 1\<rparr>)"
    using v2 by (simp add: replace_year_def)
  have s1: "strptime (strftime (return_obj\<lparr>year := year depart_obj\<rparr>)) = Some (return_obj\<lparr>year := year depart_obj\<rparr>)"
    using v1 mid by (intro strptime_strftime) simp_all
  have s2: "strptime (strftime (return_obj\<lparr>year := year depart_obj + 1\<rparr>)) = Some (return_obj\<lparr>year := year depart_obj + 1\<rparr>)"
    using v2 mid by (intro strptime_strftime) simp_all
  show ?thesis
  proof (cases "dt_lt return_obj depart_obj")
    case False
    with a dep dne have "r' = r" "return_obj' = return_obj"
      by (auto simp: anchor_return_def)
    with False ret show ?thesis by simp
  next
    case True
    show ?thesis
    proof (cases "dt_le (return_obj\<lparr>year := year depart_obj\<rparr>) depart_obj")
      case le: True
      with a dep dne True r1 r2 have "r' = strftime (return_obj\<lparr>year := year depart_obj + 1\<rparr>)"
        "return_obj' = return_obj\<lparr>year := year depart_obj + 1\<rparr>"
        by (auto simp: anchor_return_def)
      with s2 later_year_not_before[of depart_obj "return_obj\<lparr>year := year depart_obj + 1\<rparr>"]
      show ?thesis by simp
    next
      case nle: False
      with a dep dne True r1 have "r' = strftime (return_obj\<lparr>year := year depart_obj\<rparr>)"
        "return_obj' = return_obj\<lparr>year := year depart_obj\<rparr>"
        by (auto simp: anchor_return_def)
      with s1 not_le_not_lt[OF nle] show ?thesis by simp
    qed
  qed
qed

lemma return_not_before_depart:
  assumes dep: "strptime depart = Some depart_obj"
    and ret: "strptime r = Some return_obj"
    and nf: "\<not> (month return_obj = 2 \<and> day return_obj = 29)"
    and yr: "year depart_obj < 9999" "1 \<le> year now" "year now < 9999"
    and n: "normalize_return_date now depart (Some r) = res"
  shows "\<exists>s x. res = Some s \<and> strptime s = Some x \<and> \<not> dt_lt x depart_obj"
proof -
  obtain r' return_obj' where a: "anchor_return depart r return_obj = (r', return_obj')"
    by (cases "anchor_return depart r return_obj")
  from anchor_return_not_before[OF dep ret nf yr(1) a]
  have nb: "\<not> dt_lt return_obj' depart_obj" and p: "strptime r' = Some return_obj'"
    and md: "month return_obj' = month return_obj" "day return_obj' = day return_obj" by auto
  from strptime_Some[OF ret] have rne: "r \<noteq> ''''" by simp
  from strptime_Some[OF p] have rv: "valid_date (year return_obj') (month return_obj') (day return_obj')"
    and mid: "hour return_obj' = 0" "minute return_obj' = 0" "second return_obj' = 0"
      "microsecond return_obj' = 0" by auto
  have special: "r \<noteq> ''null''" "r \<noteq> ''None''"
    using ret by (auto simp: strptime_def digit_val_def)
  show ?thesis
  proof (cases "dt_lt return_obj' now")
    case False
    with n a ret rne special have "res = Some r'"
      by (simp add: normalize_return_date_def)
    with p nb show ?thesis by blast
  next
    case True
    let ?f = "return_obj'\<lparr>year := year now + 1\<rparr>"
    have v: "valid_date (year now + 1) (month return_obj') (day return_obj')"
      using valid_other_year[OF rv, of "year now + 1"] nf md yr by simp
    then have rp: "replace_year return_obj' (year now + 1) = Some ?f"
      by (simp add: replace_year_def)
    have later: "dt_lt now ?f" by (auto simp: dt_lt_def dt_fields_def)
    from n a ret rne special True rp later have res: "res = Some (strftime ?f)"
      by (simp add: normalize_return_date_def)
    have sf: "strptime (strftime ?f) = Some ?f"
      using v mid by (intro strptime_strftime) simp_all
    have "dt_lt return_obj' ?f" using dt_lt_trans_le[OF True, of ?f] later
      by (auto simp: dt_lt_def dt_fields_def)
    then have "\<not> dt_lt ?f depart_obj" using nb
      by (auto simp: dt_lt_def dt_fields_def)
    with res sf show ?thesis by blast
  qed
qed

text \<open>
  Claim C2. The returned return date should never be before the departure date. On
  10 January 2024 at noon, a departure on 5 January resolves to 2025-01-05; the return date
  2024-02-29 precedes it, but 29 February does not exist in 2025, \<open>replace\<close> raises
  \<open>ValueError\<close>, the handler passes, and the return date is left before the departure.
  Both the normalizer and the regex fallback do so.
\<close>

theorem return_feb29_left_before_depart:
  "validate_and_normalize_intent (at_time 2024 1 10 12 0) (Some ''2024-01-05'') (Some ''2024-02-29'')
     = (''2025-01-05'', Some ''2024-02-29'') \<and>
   extract_intent_fallback_dates (at_time 2024 1 10 12 0) [''2024-01-05'', ''2024-02-29'']
     = (''2025-01-05'', Some ''2024-02-29'') \<and>
   date_before ''2024-02-29'' ''2025-01-05''"
  by code_simp

text \<open>
  Scenario D of the spec holds at a reference time at which 2024-12-12 is the resolved
  departure (here 1 November 2024).
\<close>

lemma scenario_D:
  "validate_and_normalize_intent (at_time 2024 11 1 9 0) (Some ''2024-12-12'') (Some ''2024-01-05'')
     = (''2024-12-12'', Some ''2025-01-05'')"
  by code_simp

subsection \<open>The missing-field check\<close>





lemma known_iff_not_missing:
  "py_strip x = x \<Longrightarrow> (x \<noteq> '''') = (\<not> field_missing x)"
  by (auto simp: field_missing_def)

text \<open>Scenario C of the spec: a trip to Tokyo with no date and no origin.\<close>

lemma scenario_C:
  "check_missing_information (trip '''' ''Tokyo'' '''' None) [''FLIGHTS'', ''HOTELS'', ''ITINERARY'']
     = [''depart_date'', ''origin'']"
  by code_simp

subsection \<open>The order in which the agents run\<close>

lemma calls_send: "calls (send s w) = calls w"
  by (simp add: send_def)

lemma calls_log_call: "calls (log_call c w) = calls w @ [c]"
  by (simp add: log_call_def)

lemma calls_day_callbacks: "calls (fold day_callback xs w) = calls w"
  by (induction xs arbitrary: w) (simp_all add: day_callback_def calls_send)

lemma calls_run_flight_agent:
  "calls (snd (run_flight_agent env intent w)) = calls w @ [Called ''FLIGHTS'', Returned ''FLIGHTS'']"
  by (simp add: run_flight_agent_def Let_def calls_send calls_log_call split: sum.splits)

lemma calls_run_hotel_agent:
  "calls (snd (run_hotel_agent env intent w)) = calls w @ [Called ''HOTELS'', Returned ''HOTELS'']"
  by (simp add: run_hotel_agent_def Let_def calls_send calls_log_call split: sum.splits)

lemma calls_run_itinerary_agent:
  "calls (snd (run_itinerary_agent env intent w)) =
     calls w @ [Called ''ITINERARY'', Returned ''ITINERARY'']"
  by (simp add: run_itinerary_agent_def Let_def calls_send calls_log_call calls_day_callbacks
           split: sum.splits prod.splits option.splits)

lemma snd_await_task:
  "snd (await_task env intent n (results, w)) = snd (run_agent env n intent w)"
  by (simp add: await_task_def split: prod.splits sum.splits)

lemma calls_await_task:
  assumes "n = ''FLIGHTS'' \<or> n = ''HOTELS'' \<or> n = ''ITINERARY''"
  shows "calls (snd (await_task env intent n st)) = calls (snd st) @ [Called n, Returned n]"
proof -
  obtain results w where st: "st = (results, w)" by (cases st)
  show ?thesis
    using assms unfolding st snd_await_task
    by (auto simp: run_agent_def calls_run_flight_agent calls_run_hotel_agent
          calls_run_itinerary_agent)
qed

lemma calls_fold_await:
  assumes "set ns \<subseteq> {''FLIGHTS'', ''HOTELS'', ''ITINERARY''}"
  shows "calls (snd (fold (await_task env intent) ns st)) =
         calls (snd st) @ concat (map (\<lambda>n. [Called n, Returned n]) ns)"
  using assms
proof (induction ns arbitrary: st)
  case Nil
  then show ?case by simp
next
  case (Cons n ns)
  then have n: "n = ''FLIGHTS'' \<or> n = ''HOTELS'' \<or> n = ''ITINERARY''" by auto
  from Cons have "set ns \<subseteq> {''FLIGHTS'', ''HOTELS'', ''ITINERARY''}" by auto
  then show ?case
    using Cons.IH[of "await_task env intent n st"] calls_await_task[OF n, of env intent st]
    by simp
qed

lemma agent_tasks_names:
  "set (agent_tasks agents_needed) \<subseteq> {''FLIGHTS'', ''HOTELS'', ''ITINERARY''}"
  by (auto simp: agent_tasks_def)

lemma all_three_agents_in_turn:
  "calls (snd (run_agents_parallel env intent all_components w)) =
     calls w @ [Called ''FLIGHTS'', Returned ''FLIGHTS'', Called ''HOTELS'', Returned ''HOTELS'',
                Called ''ITINERARY'', Returned ''ITINERARY'']"
  unfolding run_agents_parallel_def
  using calls_fold_await[OF agent_tasks_names, of env intent all_components "([], w)"]
  by (simp add: agent_tasks_def all_components_def)

text \<open>
  Claim C9. The selected agents should run as concurrent tasks that interleave. The tasks
  are coroutine objects that are never scheduled (no \<open>create_task\<close>, no \<open>gather\<close>); the loop
  awaits them one by one. For every choice of collaborators the runners are entered and
  left strictly in turn: each agent has returned before the next one is called.
\<close>

theorem agents_run_one_after_another:
  "calls (snd (run_agents_parallel env intent agents_needed w)) =
     calls w @ concat (map (\<lambda>n. [Called n, Returned n]) (agent_tasks agents_needed))"
  unfolding run_agents_parallel_def
  using calls_fold_await[OF agent_tasks_names, of env intent agents_needed "([], w)"] by simp

subsection \<open>What the supervisor stores\<close>

text \<open>
  The result mapping holds, for each selected agent in the order flights, hotels,
  itinerary, what that agent's runner returned, or the error wrapper with the text of
  its exception; a failing agent changes nothing in the entries of the others.
\<close>

lemma fst_run_flight_agent:
  "fst (run_flight_agent env intent w) = fst (run_flight_agent env intent w')"
  by (simp add: run_flight_agent_def Let_def split: sum.splits)

lemma fst_run_hotel_agent:
  "fst (run_hotel_agent env intent w) = fst (run_hotel_agent env intent w')"
  by (simp add: run_hotel_agent_def Let_def split: sum.splits)

lemma fst_run_itinerary_agent:
  "fst (run_itinerary_agent env intent w) = fst (run_itinerary_agent env intent w')"
  by (simp add: run_itinerary_agent_def Let_def split: sum.splits prod.splits option.splits)

lemma fst_run_agent: "fst (run_agent env n intent w) = fst (run_agent env n intent w')"
  using fst_run_flight_agent fst_run_hotel_agent fst_run_itinerary_agent
  by (simp add: run_agent_def)

lemma fst_await_task:
  "fst (await_task env intent n (rs, w)) = dict_set rs n (stored_result env intent n)"
proof -
  obtain x w' where r: "run_agent env n intent w = (x, w')" by (cases "run_agent env n intent w")
  then have "fst (run_agent env n intent empty_world) = x"
    using fst_run_agent[of env n intent empty_world w] by simp
  with r show ?thesis
    by (simp add: await_task_def stored_result_def split: sum.splits)
qed

lemma dict_set_new: "k \<notin> fst ` set rs \<Longrightarrow> dict_set rs k v = rs @ [(k, v)]"
  by (induction rs) auto

lemma fold_await_results:
  assumes "distinct ns" and "set ns \<inter> fst ` set rs = {}"
  shows "fst (fold (await_task env intent) ns (rs, w)) =
           rs @ map (\<lambda>n. (n, stored_result env intent n)) ns"
  using assms
proof (induction ns arbitrary: rs w)
  case Nil
  then show ?case by simp
next
  case (Cons n ns)
  obtain rs' w' where st: "await_task env intent n (rs, w) = (rs', w')"
    by (cases "await_task env intent n (rs, w)")
  from Cons.prems have "n \<notin> fst ` set rs" by auto
  then have rs': "rs' = rs @ [(n, stored_result env intent n)]"
    using fst_await_task[of env intent n rs w] st by (simp add: dict_set_new)
  have "distinct ns" and "set ns \<inter> fst ` set rs' = {}"
    using Cons.prems rs' by auto
  from Cons.IH[OF this, of w'] st rs' show ?case by simp
qed

lemma distinct_agent_tasks: "distinct (agent_tasks agents_needed)"
  by (simp add: agent_tasks_def)

lemma results_of_run:
  "fst (run_agents_parallel env intent agents_needed w) =
     map (\<lambda>n. (n, stored_result env intent n)) (agent_tasks agents_needed)"
  unfolding run_agents_parallel_def
  using fold_await_results[OF distinct_agent_tasks, of agents_needed "[]" env intent w] by simp

lemma lower_itinerary: "py_lower ''ITINERARY'' = ''itinerary''"
  by code_simp

lemma lower_hotels: "py_lower ''HOTELS'' = ''hotels''"
  by code_simp

lemma stored_itinerary_failure:
  assumes "snd (plan_itinerary_agent env intent) = Inl e"
  shows "stored_result env intent ''ITINERARY'' =
           JDict [(''error'', JStr (str_exn e)), (''itinerary'', JList [])]"
proof -
  obtain streamed where p: "plan_itinerary_agent env intent = (streamed, Inl e)"
    using assms by (cases "plan_itinerary_agent env intent") simp
  have "fst (run_agent env ''ITINERARY'' intent empty_world) = Inl e"
    by (simp add: run_agent_def run_itinerary_agent_def Let_def p)
  then show ?thesis
    by (simp add: stored_result_def error_result_def lower_itinerary)
qed

lemma stored_hotels_failure:
  assumes "search_hotels_agent env intent = Inl e"
  shows "stored_result env intent ''HOTELS'' =
           JDict [(''error'', JStr (str_exn e)), (''hotels'', JList [])]"
  using assms
  by (simp add: stored_result_def run_agent_def run_hotel_agent_def Let_def error_result_def
        lower_hotels)

lemma stored_flights_failure:
  assumes "search_flights_agent env intent = Inl e"
  shows "stored_result env intent ''FLIGHTS'' =
           JDict [(''flights'', JList []),
                  (''reasoning'', JStr (''Error searching flights: '' @ str_exn e))]"
  using assms
  by (simp add: stored_result_def run_agent_def run_flight_agent_def Let_def flights_of_result_def
        bind_ex_def)

lemma bind_ex_to_failure: "\<exists>y. bind_ex m (\<lambda>_. Inl x) = Inl y"
  by (cases m) (simp_all add: bind_ex_def)

lemma log_results_failure_later:
  assumes "log_results rest = Inl x"
  shows "\<exists>y. log_results (a # rest) = Inl y"
proof -
  obtain n v where a: "a = (n, v)" by (cases a)
  show ?thesis
    unfolding a log_results.simps assms by (rule bind_ex_to_failure)
qed

lemma log_results_itinerary_wrapper:
  "\<exists>x. log_results (rs @ [(''ITINERARY'', JDict [(''error'', m), (''itinerary'', JList [])])]) = Inl x"
proof (induction rs)
  case Nil
  show ?case by (simp add: bind_ex_def)
next
  case (Cons a rs)
  then obtain x where
    "log_results (rs @ [(''ITINERARY'', JDict [(''error'', m), (''itinerary'', JList [])])]) = Inl x"
    by blast
  from log_results_failure_later[OF this, of a] show ?case by simp
qed

lemma agent_tasks_itinerary_last:
  assumes "''ITINERARY'' \<in> set agents_needed"
  shows "\<exists>pre. agent_tasks agents_needed = pre @ [''ITINERARY'']"
  using assms by (simp add: agent_tasks_def)

lemma itinerary_exception_fails_the_run:
  assumes "snd (plan_itinerary_agent env intent) = Inl e" and "''ITINERARY'' \<in> set agents_needed"
  shows "\<exists>m. fst (process_request_stream_agents env msg intent requested agents_needed w) =
               orchestrator_error_plan (take 200 m)"
proof -
  obtain results w1 where r: "run_agents_parallel env intent agents_needed w = (results, w1)"
    by (cases "run_agents_parallel env intent agents_needed w")
  from agent_tasks_itinerary_last[OF assms(2)] obtain pre where
    pre: "agent_tasks agents_needed = pre @ [''ITINERARY'']" by blast
  have "results = map (\<lambda>n. (n, stored_result env intent n)) pre @
                  [(''ITINERARY'', JDict [(''error'', JStr (str_exn e)), (''itinerary'', JList [])])]"
    using results_of_run[of env intent agents_needed w] r pre stored_itinerary_failure[OF assms(1)]
    by simp
  with log_results_itinerary_wrapper[of "map (\<lambda>n. (n, stored_result env intent n)) pre" "JStr (str_exn e)"]
  obtain x where x: "log_results results = Inl x" by auto
  have "fst (process_request_stream_agents env msg intent requested agents_needed w) =
          orchestrator_error_plan (take 200 (str_exn x))"
    by (simp add: process_request_stream_agents_def r x Let_def orchestrator_error_plan_def)
  then show ?thesis by blast
qed

subsection \<open>One failing agent\<close>

text \<open>
  Claim C6. With one failing agent the final plan should hold the siblings' data and one
  ErrorItem naming the failed agent. The supervisor does keep the siblings' results and
  stores the error wrapper, but the wrapper of the itinerary agent is
  \<open>{"error": ..., "itinerary": []}\<close>: its \<open>"itinerary"\<close> entry is a list, and both the log
  lines after the agents and \<open>_build_plan\<close> call \<open>.get("days", [])\<close> on it. The
  \<open>AttributeError\<close> ends the run with a plan that holds only an ErrorItem of the agent
  \<open>ORCHESTRATOR\<close>.
\<close>

theorem itinerary_failure_loses_the_plan:
  "fst (run_agents_parallel itinerary_down rome_request all_components empty_world) =
     [(''FLIGHTS'', good_flights), (''HOTELS'', good_hotels),
      (''ITINERARY'', JDict [(''error'', JStr ''Network error''), (''itinerary'', JList [])])] \<and>
   build_plan itinerary_down rome_request
     (fst (run_agents_parallel itinerary_down rome_request all_components empty_world))
     (''Here is your plan.'', '''') (Some all_components) = Inl (AttributeError list_has_no_get) \<and>
   fst (process_request_stream_agents itinerary_down ''plan a trip to Rome'' rome_request
          all_components all_components empty_world) = orchestrator_error_plan list_has_no_get"
  by code_simp

text \<open>Scenario E of the spec (the hotel agent fails) does hold.\<close>

lemma scenario_E:
  "fst (process_request_stream_agents hotels_down ''plan a trip to Rome'' rome_request
          all_components all_components empty_world) =
     \<lparr>request = rome_request,
      flights = [JDict [(''airline'', JStr ''AZ''), (''price'', JInt 420)]],
      hotels = [],
      itinerary_days = [a_day ''2024-12-20''],
      summary = ''Here is your plan.'', notes_text = '''',
      errors = [\<lparr>agent = ''HOTELS'', message = JStr ''Network error''\<rparr>],
      meta_generated_at = ''2024-11-01T09:00:00'', meta_sources = [''SerpAPI'', ''Tavily'']\<rparr>"
  by code_simp

lemma bind_ex_Inr: "bind_ex m f = Inr y \<Longrightarrow> \<exists>a. m = Inr a \<and> f a = Inr y"
  by (cases m) (simp_all add: bind_ex_def)

lemma collect_errors_agents:
  assumes "collect_errors rs = Inr errs" and "it \<in> set errs"
  shows "\<exists>v. (agent it, v) \<in> set rs \<and> py_in ''error'' v = Inr True"
  using assms
proof (induction rs arbitrary: errs)
  case Nil
  then show ?case by simp
next
  case (Cons a rs)
  obtain n v where a: "a = (n, v)" by (cases a)
  from Cons.prems(1) obtain has_error where h: "py_in ''error'' v = Inr has_error"
    and r1: "bind_ex (if has_error
              then bind_ex (py_item v ''error'') (\<lambda>m. Inr [\<lparr>agent = n, message = m\<rparr>])
              else Inr []) (\<lambda>item.
     bind_ex (collect_errors rs) (\<lambda>items. Inr (item @ items))) = Inr errs"
    unfolding a collect_errors.simps by (auto dest: bind_ex_Inr)
  from bind_ex_Inr[OF r1] obtain item where
    i: "(if has_error then bind_ex (py_item v ''error'') (\<lambda>m. Inr [\<lparr>agent = n, message = m\<rparr>])
         else Inr []) = Inr item"
    and r2: "bind_ex (collect_errors rs) (\<lambda>items. Inr (item @ items)) = Inr errs" by blast
  from bind_ex_Inr[OF r2] obtain items where c: "collect_errors rs = Inr items"
    and e: "errs = item @ items" by auto
  from Cons.prems(2) e consider "it \<in> set item" | "it \<in> set items" by auto
  then show ?case
  proof cases
    case 1
    with i have "has_error \<and> agent it = n"
      by (cases has_error) (auto dest!: bind_ex_Inr)
    with h show ?thesis unfolding a by auto
  next
    case 2
    from Cons.IH[OF c 2] show ?thesis by auto
  qed
qed

lemma build_plan_errors:
  assumes "build_plan env intent results summary' requested = Inr plan"
  shows "\<exists>errs. collect_errors results = Inr errs \<and> errors plan = errs"
proof -
  from assms obtain fl where
    a1: "bind_ex (if ''HOTELS'' \<in> set (or_all_components requested)
                  then bind_ex (py_get (results_get results ''HOTELS'') ''hotels'' (JList [])) (\<lambda>hotels_data.
                       bind_ex (py_iter hotels_data) (map_ex model_new))
                  else Inr []) (\<lambda>ho.
         bind_ex (if ''ITINERARY'' \<in> set (or_all_components requested)
                  then bind_ex (py_get (results_get results ''ITINERARY'') ''itinerary'' (JDict [])) (\<lambda>itinerary_data.
                       bind_ex (py_get itinerary_data ''days'' (JList [])) (\<lambda>days_data.
                       bind_ex (py_iter days_data) (map_ex model_new)))
                  else Inr []) (\<lambda>ds.
         bind_ex (collect_errors results) (\<lambda>errs.
         Inr ((ChatPlan_new intent (fst summary') (snd summary') [])
                  \<lparr>flights := fl, hotels := ho, itinerary_days := ds, errors := errs,
                   meta_generated_at := utcnow_isoformat env,
                   meta_sources := [''SerpAPI'', ''Tavily'']\<rparr>)))) = Inr plan"
    unfolding build_plan_def Let_def by (blast dest: bind_ex_Inr)
  from bind_ex_Inr[OF a1] obtain ho where
    a2: "bind_ex (if ''ITINERARY'' \<in> set (or_all_components requested)
                  then bind_ex (py_get (results_get results ''ITINERARY'') ''itinerary'' (JDict [])) (\<lambda>itinerary_data.
                       bind_ex (py_get itinerary_data ''days'' (JList [])) (\<lambda>days_data.
                       bind_ex (py_iter days_data) (map_ex model_new)))
                  else Inr []) (\<lambda>ds.
         bind_ex (collect_errors results) (\<lambda>errs.
         Inr ((ChatPlan_new intent (fst summary') (snd summary') [])
                  \<lparr>flights := fl, hotels := ho, itinerary_days := ds, errors := errs,
                   meta_generated_at := utcnow_isoformat env,
                   meta_sources := [''SerpAPI'', ''Tavily'']\<rparr>))) = Inr plan"
    by blast
  from bind_ex_Inr[OF a2] obtain ds where
    a3: "bind_ex (collect_errors results) (\<lambda>errs.
         Inr ((ChatPlan_new intent (fst summary') (snd summary') [])
                  \<lparr>flights := fl, hotels := ho, itinerary_days := ds, errors := errs,
                   meta_generated_at := utcnow_isoformat env,
                   meta_sources := [''SerpAPI'', ''Tavily'']\<rparr>)) = Inr plan"
    by blast
  from bind_ex_Inr[OF a3] show ?thesis by auto
qed

lemma process_request_stream_agents_plan:
  assumes "run_agents_parallel env intent agents_needed w = (results, w1)"
  shows "(\<exists>m. fst (process_request_stream_agents env msg intent requested agents_needed w) =
               orchestrator_error_plan (take 200 m)) \<or>
         (\<exists>s. build_plan env intent results s (Some requested) =
               Inr (fst (process_request_stream_agents env msg intent requested agents_needed w)))"
proof (cases "log_results results")
  case (Inl x)
  then have "fst (process_request_stream_agents env msg intent requested agents_needed w) =
          orchestrator_error_plan (take 200 (str_exn x))"
    by (simp add: process_request_stream_agents_def assms Let_def orchestrator_error_plan_def)
  then show ?thesis by blast
next
  case lr: (Inr u)
  show ?thesis
  proof (cases "generate_summary env intent results (Some requested)")
    case (Inl x)
    then have "fst (process_request_stream_agents env msg intent requested agents_needed w) =
          orchestrator_error_plan (take 200 (str_exn x))"
      by (simp add: process_request_stream_agents_def assms lr Let_def orchestrator_error_plan_def)
    then show ?thesis by blast
  next
    case gs: (Inr s)
    show ?thesis
    proof (cases "build_plan env intent results s (Some requested)")
      case (Inl x)
      then have "fst (process_request_stream_agents env msg intent requested agents_needed w) =
          orchestrator_error_plan (take 200 (str_exn x))"
        by (simp add: process_request_stream_agents_def assms lr gs Let_def orchestrator_error_plan_def)
      then show ?thesis by blast
    next
      case bp: (Inr plan)
      show ?thesis
      proof (cases "save_to_supabase env msg (fst s) plan")
        case (Inl x)
        then have "fst (process_request_stream_agents env msg intent requested agents_needed w) =
          orchestrator_error_plan (take 200 (str_exn x))"
          by (simp add: process_request_stream_agents_def assms lr gs bp Let_def orchestrator_error_plan_def)
        then show ?thesis by blast
      next
        case (Inr v)
        then have "fst (process_request_stream_agents env msg intent requested agents_needed w) = plan"
          by (simp add: process_request_stream_agents_def assms lr gs bp Let_def)
        with bp have "build_plan env intent results s (Some requested) =
               Inr (fst (process_request_stream_agents env msg intent requested agents_needed w))"
          by simp
        then show ?thesis by blast
      qed
    qed
  qed
qed

lemma flight_exception_gives_no_error_item:
  assumes "search_flights_agent env intent = Inl e"
  shows "''FLIGHTS'' \<notin> agent ` set (errors (fst (process_request_stream_agents env msg intent requested agents_needed w)))"
proof -
  obtain results w1 where r: "run_agents_parallel env intent agents_needed w = (results, w1)"
    by (cases "run_agents_parallel env intent agents_needed w")
  have res: "results = map (\<lambda>n. (n, stored_result env intent n)) (agent_tasks agents_needed)"
    using results_of_run[of env intent agents_needed w] r by simp
  from process_request_stream_agents_plan[OF r, of msg requested]
  show ?thesis
  proof
    assume "\<exists>m. fst (process_request_stream_agents env msg intent requested agents_needed w) =
               orchestrator_error_plan (take 200 m)"
    then show ?thesis by (auto simp: orchestrator_error_plan_def ChatPlan_new_def)
  next
    assume "\<exists>s. build_plan env intent results s (Some requested) =
               Inr (fst (process_request_stream_agents env msg intent requested agents_needed w))"
    then obtain s where "build_plan env intent results s (Some requested) =
               Inr (fst (process_request_stream_agents env msg intent requested agents_needed w))" by blast
    from build_plan_errors[OF this] have
      c: "collect_errors results =
            Inr (errors (fst (process_request_stream_agents env msg intent requested agents_needed w)))"
      by auto
    show ?thesis
    proof
      assume "''FLIGHTS'' \<in> agent ` set (errors (fst (process_request_stream_agents env msg intent requested agents_needed w)))"
      then obtain it where it: "it \<in> set (errors (fst (process_request_stream_agents env msg intent requested agents_needed w)))"
        and ag: "agent it = ''FLIGHTS''" by auto
      from collect_errors_agents[OF c it] ag obtain v where
        v: "(''FLIGHTS'', v) \<in> set results" and ve: "py_in ''error'' v = Inr True" by auto
      from v res have "v = stored_result env intent ''FLIGHTS''" by auto
      with stored_flights_failure[OF assms] ve show False by simp
    qed
  qed
qed

subsection \<open>A failing flight search against a failing itinerary agent\<close>

text \<open>
  Claim C10. The flight runner swallows an exception of the flight search and returns empty
  flights with a reasoning text and no \<open>error\<close> key, so the plan carries no ErrorItem for
  \<open>FLIGHTS\<close>; a hotel exception becomes an ErrorItem (scenario E above). An exception of
  the itinerary agent does not become an ErrorItem: in an itinerary-only run the plan that
  comes back holds one ErrorItem, of the agent \<open>ORCHESTRATOR\<close> (the defect of claim C6).
\<close>

theorem itinerary_exception_is_no_error_item:
  "fst (process_request_stream_agents itinerary_down ''things to do in Rome'' rome_request
          [''ITINERARY''] [''ITINERARY''] empty_world) = orchestrator_error_plan list_has_no_get \<and>
   map agent (errors (orchestrator_error_plan list_has_no_get)) = [''ORCHESTRATOR'']"
  by code_simp

lemma flight_exception_is_swallowed:
  "fst (run_flight_agent flights_down rome_request empty_world) =
     Inr (JDict [(''flights'', JList []),
                 (''reasoning'', JStr ''Error searching flights: Network error'')]) \<and>
   errors (fst (process_request_stream_agents flights_down ''plan a trip to Rome'' rome_request
                  all_components all_components empty_world)) = []"
  by code_simp

subsection \<open>An exception during an edit\<close>

text \<open>
  In a \<open>hotels\<close> edit, whenever the message yields a destination and the hotel search
  raises, the plan the editor returns carries the new destination.
\<close>

lemma hotels_edit_exception_keeps_new_destination:
  assumes "understand_intent env msg = Inr new_intent" and "destination new_intent \<noteq> ''''"
    and "\<And>q. search_hotels_agent env q = Inl e"
    and "edit_type intent' = ''hotels''"
  shows "handle_incremental_edit env msg intent' r w =
           Some (r, snd (the (handle_incremental_edit env msg intent' r w))) \<and>
         destination (request (returned_plan (the (handle_incremental_edit env msg intent' r w)))) =
           destination new_intent"
  using assms
  by (simp add: handle_incremental_edit_def unmodelled_edit_def edit_hotels_def run_hotel_agent_def
        Let_def returned_plan_def set_request_def upd_plan_def send_def log_call_def)

text \<open>
  Claim C3. After an exception the editor should return the plan as it was before the edit.
  \<open>updated_plan\<close> and \<open>existing_plan\<close> are one object, and the branches write into it before
  the agents run. In a \<open>hotels\<close> edit whose message names Paris, the destination of the
  existing plan is overwritten, then the hotel agent raises: the editor returns the
  existing plan (address 0), whose destination is now Paris, with the old summary.
\<close>

theorem edit_exception_returns_changed_plan:
  "map_option (\<lambda>res. (fst res, destination (request (returned_plan res)), summary (returned_plan res)))
     (handle_incremental_edit hotels_down ''find me a hotel in Paris instead''
        \<lparr>edit_type = ''hotels'', day_number = None, target_date = None\<rparr> 0 rome_world)
   = Some (0, ''Paris'', ''A trip to Rome'') \<and>
   destination (request (plans rome_world 0)) = ''Rome''"
  by code_simp

subsection \<open>Removing a day from the itinerary\<close>

lemma plans_send: "plans (send s w) = plans w"
  by (simp add: send_def)

lemma sent_send: "sent (send s w) = sent w @ [s]"
  by (simp add: send_def)

lemma plans_upd_plan: "plans (upd_plan r f w) r = f (plans w r)"
  by (simp add: upd_plan_def)

lemma sent_upd_plan: "sent (upd_plan r f w) = sent w"
  by (simp add: upd_plan_def)

lemma model_new_dict: "is_dict d \<Longrightarrow> model_new d = Inr d"
  by (cases d) simp_all

lemma map_ex_revalidate: "map_ex (\<lambda>d. if is_dict d then model_new d else Inr d) xs = Inr xs"
  by (induction xs) (simp_all add: model_new_dict)

lemma find_idx_Some:
  "find_idx P xs = Some i \<longleftrightarrow> i < length xs \<and> P (xs ! i) \<and> (\<forall>j<i. \<not> P (xs ! j))"
proof (induction xs arbitrary: i)
  case Nil
  then show ?case by simp
next
  case (Cons x xs)
  show ?case
  proof (cases "P x")
    case True
    then show ?thesis by (cases i) auto
  next
    case False
    show ?thesis
    proof (cases i)
      case 0
      with False show ?thesis by simp
    next
      case (Suc k)
      have "(\<forall>j<Suc k. \<not> P ((x # xs) ! j)) \<longleftrightarrow> (\<forall>j<k. \<not> P (xs ! j))"
        using False by (auto simp: less_Suc_eq_0_disj)
      with False Suc Cons.IH[of k] show ?thesis by auto
    qed
  qed
qed

lemma find_idx_None: "find_idx P xs = None \<longleftrightarrow> (\<forall>x\<in>set xs. \<not> P x)"
  by (induction xs) auto

lemma edit_finish_keeps_days:
  "itinerary_days (plans (snd (edit_finish env msg r w)) r) = itinerary_days (plans w r)"
  by (simp add: edit_finish_def Let_def plans_send plans_upd_plan split: sum.splits)

lemma edit_finish_keeps_sent:
  "set (sent w) \<subseteq> set (sent (snd (edit_finish env msg r w)))"
  by (auto simp: edit_finish_def Let_def sent_send sent_upd_plan split: sum.splits)

lemma edit_itinerary_remove_result:
  fixes env msg intent' r w
  defines "days \<equiv> itinerary_days (plans w r)"
  defines "target \<equiv> effective_target_date (target_date intent')
      (align_extracted_dates (depart_date (request (plans w r))) (extract_dates (natural_dates env) msg))"
  shows "\<exists>w'. edit_itinerary_remove env msg intent' r r w = (Inr (), w') \<and>
     (case day_to_remove days target (day_number intent') of
        Some i \<Rightarrow> itinerary_days (plans w' r) = pop_at i days
      | None \<Rightarrow> itinerary_days (plans w' r) = days \<and> TextChunk could_not_find 1 \<in> set (sent w'))"
  unfolding days_def target_def
  by (simp add: edit_itinerary_remove_def Let_def map_ex_revalidate plans_send plans_upd_plan sent_send
           split: option.splits)

lemma handle_itinerary_remove:
  fixes env msg intent' r w
  defines "days \<equiv> itinerary_days (plans w r)"
  defines "target \<equiv> effective_target_date (target_date intent')
      (align_extracted_dates (depart_date (request (plans w r))) (extract_dates (natural_dates env) msg))"
  assumes et: "edit_type intent' = ''itinerary_remove''"
  shows "\<exists>res. handle_incremental_edit env msg intent' r w = Some res \<and> fst res = r \<and>
     (case day_to_remove days target (day_number intent') of
        Some i \<Rightarrow> itinerary_days (returned_plan res) = pop_at i days
      | None \<Rightarrow> itinerary_days (returned_plan res) = days \<and>
                 TextChunk could_not_find 1 \<in> set (sent (snd res)))"
proof -
  let ?w0 = "send (TextChunk (''Updating '' @ edit_type intent' @ ''...'') 0) w"
  have p0: "plans ?w0 = plans w" by (simp add: plans_send)
  from edit_itinerary_remove_result[of env msg intent' r ?w0]
  obtain w1 where b: "edit_itinerary_remove env msg intent' r r ?w0 = (Inr (), w1)"
    and c: "(case day_to_remove days target (day_number intent') of
        Some i \<Rightarrow> itinerary_days (plans w1 r) = pop_at i days
      | None \<Rightarrow> itinerary_days (plans w1 r) = days \<and> TextChunk could_not_find 1 \<in> set (sent w1))"
    unfolding days_def target_def p0 by blast
  obtain x w2 where f: "edit_finish env msg r w1 = (x, w2)" by (cases "edit_finish env msg r w1")
  have d2: "itinerary_days (plans w2 r) = itinerary_days (plans w1 r)"
    using edit_finish_keeps_days[of env msg r w1] f by simp
  have s2: "set (sent w1) \<subseteq> set (sent w2)"
    using edit_finish_keeps_sent[of w1 env msg r] f by simp
  have h: "handle_incremental_edit env msg intent' r w = Some (r, w2)"
    using et b f by (simp add: handle_incremental_edit_def unmodelled_edit_def Let_def split: sum.splits)
  show ?thesis
    using h c d2 s2 by (auto simp: returned_plan_def split: option.splits)
qed

lemma pop_at_absent:
  assumes "distinct (map f xs)" "i < length xs"
  shows "f (xs ! i) \<notin> f ` set (pop_at i xs)"
proof -
  have "xs = take i xs @ xs ! i # drop (Suc i) xs"
    using assms(2) by (simp add: id_take_nth_drop)
  then have "distinct (map f (take i xs @ xs ! i # drop (Suc i) xs))"
    using assms(1) by simp
  then show ?thesis by (auto simp: pop_at_def)
qed

lemma length_pop_at: "i < length xs \<Longrightarrow> length (pop_at i xs) = length xs - 1"
  by (auto simp: pop_at_def)

text \<open>
  Claim C4, as amended. The date that counts is the effective target date: the first date
  found in the user message, its year set to the year of the trip's departure, when the
  message holds one, and the \<open>target_date\<close> of the edit intent otherwise. When it matches
  (after normalization) the date of the day at index \<open>i\<close> and of no earlier day, that day is
  removed whatever the summary and persistence steps do: the itinerary has one day less,
  the other days keep their order, and where the dates are unique no remaining day
  carries the date.
\<close>

theorem itinerary_remove_by_effective_date:
  assumes et: "edit_type intent' = ''itinerary_remove''"
    and days: "days = itinerary_days (plans w r)"
    and tgt: "effective_target_date (target_date intent')
                (align_extracted_dates (depart_date (request (plans w r)))
                   (extract_dates (natural_dates env) msg)) = Some t"
    and ne: "t \<noteq> ''''"
    and i: "i < length days"
    and hit: "day_date (days ! i) = JStr (normalize_target t)"
    and first: "\<forall>j<i. day_date (days ! j) \<noteq> JStr (normalize_target t)"
  shows "\<exists>res. handle_incremental_edit env msg intent' r w = Some res \<and>
           itinerary_days (returned_plan res) = take i days @ drop (Suc i) days \<and>
           length (itinerary_days (returned_plan res)) = length days - 1 \<and>
           (distinct (map day_date days) \<longrightarrow>
              JStr (normalize_target t) \<notin> day_date ` set (itinerary_days (returned_plan res)))"
proof -
  have f: "find_idx (\<lambda>d. day_date d = JStr (normalize_target t)) days = Some i"
    using i hit first by (simp add: find_idx_Some)
  have d: "day_to_remove days (Some t) (day_number intent') = Some i"
    using ne f by (simp add: day_to_remove_def)
  from handle_itinerary_remove[OF et, of env msg r w]
  obtain res where h: "handle_incremental_edit env msg intent' r w = Some res"
    and p: "itinerary_days (returned_plan res) = pop_at i days"
    using d unfolding days[symmetric] tgt by auto
  have "distinct (map day_date days) \<longrightarrow>
          JStr (normalize_target t) \<notin> day_date ` set (itinerary_days (returned_plan res))"
    using pop_at_absent[of day_date days i] i hit p by auto
  with h p i show ?thesis
    by (auto simp: pop_at_def)
qed

text \<open>
  Claim C5, as amended. When there is an effective target date, the day is resolved by
  the exact match of the normalized date alone, and the day number is not consulted; the
  1-based day number is used only when there is no target date at all. When no day
  resolves, the editor goes on (it returns the plan), streams the "could not find" text
  and leaves the itinerary as it was.
\<close>

theorem itinerary_remove_resolution:
  assumes et: "edit_type intent' = ''itinerary_remove''"
    and days: "days = itinerary_days (plans w r)"
    and tgt: "target = effective_target_date (target_date intent')
                (align_extracted_dates (depart_date (request (plans w r)))
                   (extract_dates (natural_dates env) msg))"
  shows "\<exists>res. handle_incremental_edit env msg intent' r w = Some res \<and> fst res = r \<and>
     (if target \<noteq> None \<and> target \<noteq> Some ''''
      then (case find_idx (\<lambda>d. day_date d = JStr (normalize_target (the target))) days of
              Some i \<Rightarrow> day_removed i days res
            | None \<Rightarrow> day_not_found days res)
      else (case day_number intent' of
              None \<Rightarrow> day_not_found days res
            | Some n \<Rightarrow>
                if 1 \<le> n \<and> n \<le> int (length days) then day_removed (nat (n - 1)) days res
                else day_not_found days res))"
proof -
  from handle_itinerary_remove[OF et, of env msg r w]
  obtain res where h: "handle_incremental_edit env msg intent' r w = Some res" "fst res = r"
    and c: "(case day_to_remove days target (day_number intent') of
              Some i \<Rightarrow> day_removed i days res
            | None \<Rightarrow> day_not_found days res)"
    unfolding days[symmetric] tgt[symmetric] day_removed_def day_not_found_def by auto
  show ?thesis
  proof (cases "target \<noteq> None \<and> target \<noteq> Some ''''")
    case True
    with c h show ?thesis by (auto simp: day_to_remove_def)
  next
    case False
    then have "day_to_remove days target (day_number intent') =
      (case day_number intent' of None \<Rightarrow> None
       | Some n \<Rightarrow> if 1 \<le> n \<and> n \<le> int (length days) then Some (nat (n - 1)) else None)"
      by (auto simp: day_to_remove_def split: option.splits)
    with c h False show ?thesis by (auto split: option.splits if_splits)
  qed
qed

text \<open>
  Scenario B of the spec: five days from 2024-12-20, the message "block december 22"; the
  extracted date 2026-12-22 is moved to the trip's year and the third day is removed.
\<close>

theorem itinerary_remove_by_effective_date_witness:
  "effective_target_date (Some ''2024-12-22'')
     (align_extracted_dates ''2024-12-20'' (extract_dates (natural_dates december) ''block december 22''))
     = Some ''2024-12-22'' \<and>
   day_date (five_days ! 2) = JStr (normalize_target ''2024-12-22'') \<and>
   (\<exists>res. handle_incremental_edit december ''block december 22''
             (remove_intent (Some ''2024-12-22'') None) 0 rome_world = Some res \<and>
          itinerary_days (returned_plan res) =
            map a_day [''2024-12-20'', ''2024-12-21'', ''2024-12-23'', ''2024-12-24''] \<and>
          length (itinerary_days (returned_plan res)) = 4)"
proof -
  have et: "edit_type (remove_intent (Some ''2024-12-22'') None) = ''itinerary_remove''"
    by (simp add: remove_intent_def)
  have days: "five_days = itinerary_days (plans rome_world 0)"
    by (simp add: rome_world_def rome_plan_def)
  have tgt: "effective_target_date (target_date (remove_intent (Some ''2024-12-22'') None))
                (align_extracted_dates (depart_date (request (plans rome_world 0)))
                   (extract_dates (natural_dates december) ''block december 22'')) = Some ''2024-12-22''"
    by code_simp
  have tgt': "effective_target_date (Some ''2024-12-22'')
     (align_extracted_dates ''2024-12-20'' (extract_dates (natural_dates december) ''block december 22''))
     = Some ''2024-12-22''"
    by code_simp
  have ne: "''2024-12-22'' \<noteq> ''''" by simp
  have i: "2 < length five_days" by (simp add: five_days_def)
  have hit: "day_date (five_days ! 2) = JStr (normalize_target ''2024-12-22'')" by code_simp
  have first: "\<forall>j<2. day_date (five_days ! j) \<noteq> JStr (normalize_target ''2024-12-22'')"
  proof (intro allI impI)
    fix j :: nat
    assume "j < 2"
    then have "j = 0 \<or> j = 1" by auto
    moreover have "day_date (five_days ! 0) \<noteq> JStr (normalize_target ''2024-12-22'')" by code_simp
    moreover have "day_date (five_days ! 1) \<noteq> JStr (normalize_target ''2024-12-22'')" by code_simp
    ultimately show "day_date (five_days ! j) \<noteq> JStr (normalize_target ''2024-12-22'')" by auto
  qed
  have rest: "take 2 five_days @ drop (Suc 2) five_days =
     map a_day [''2024-12-20'', ''2024-12-21'', ''2024-12-23'', ''2024-12-24'']"
    by (simp add: five_days_def)
  from itinerary_remove_by_effective_date[OF et days tgt ne i hit first]
  obtain res where "handle_incremental_edit december ''block december 22''
             (remove_intent (Some ''2024-12-22'') None) 0 rome_world = Some res"
    and "itinerary_days (returned_plan res) = take 2 five_days @ drop (Suc 2) five_days"
    by blast
  then have "\<exists>res. handle_incremental_edit december ''block december 22''
             (remove_intent (Some ''2024-12-22'') None) 0 rome_world = Some res \<and>
          itinerary_days (returned_plan res) =
            map a_day [''2024-12-20'', ''2024-12-21'', ''2024-12-23'', ''2024-12-24''] \<and>
          length (itinerary_days (returned_plan res)) = 4"
    unfolding rest by auto
  with tgt' hit show ?thesis by blast
qed

text \<open>
  The \<open>target_date\<close> of the edit intent is 2024-12-22, the date of the third day, but the
  first date in the message is 2024-12-23: the fourth day is removed and the day dated
  2024-12-22 stays.
\<close>

theorem remove_target_overridden_by_message:
  "day_date (five_days ! 2) = JStr ''2024-12-22'' \<and>
   map_option (\<lambda>res. map day_date (itinerary_days (returned_plan res)))
     (handle_incremental_edit calm ''keep 2024-12-23 and remove the day before it''
        (remove_intent (Some ''2024-12-22'') None) 0 rome_world)
   = Some [JStr ''2024-12-20'', JStr ''2024-12-21'', JStr ''2024-12-22'', JStr ''2024-12-24'']"
  by code_simp

text \<open>No date in the intent or the message, day number 2: the second day is removed.\<close>

theorem itinerary_remove_resolution_witness:
  "\<exists>res. handle_incremental_edit calm ''remove day 2'' (remove_intent None (Some 2)) 0 rome_world = Some res \<and>
     fst res = 0 \<and>
     itinerary_days (returned_plan res) =
       map a_day [''2024-12-20'', ''2024-12-22'', ''2024-12-23'', ''2024-12-24'']"
proof -
  have et: "edit_type (remove_intent None (Some 2)) = ''itinerary_remove''"
    by (simp add: remove_intent_def)
  have days: "five_days = itinerary_days (plans rome_world 0)"
    by (simp add: rome_world_def rome_plan_def)
  have tgt: "None = effective_target_date (target_date (remove_intent None (Some 2)))
                (align_extracted_dates (depart_date (request (plans rome_world 0)))
                   (extract_dates (natural_dates calm) ''remove day 2''))"
    by code_simp
  have n: "day_number (remove_intent None (Some 2)) = Some 2" by (simp add: remove_intent_def)
  have l: "length five_days = 5" by (simp add: five_days_def)
  have rest: "pop_at (Suc 0) five_days =
     map a_day [''2024-12-20'', ''2024-12-22'', ''2024-12-23'', ''2024-12-24'']"
    by (simp add: five_days_def pop_at_def)
  from itinerary_remove_resolution[OF et days tgt]
  obtain res where h: "handle_incremental_edit calm ''remove day 2'' (remove_intent None (Some 2)) 0 rome_world = Some res"
      "fst res = 0"
    and c: "day_removed (Suc 0) five_days res"
    by (auto simp: n l)
  from c have "itinerary_days (returned_plan res) =
       map a_day [''2024-12-20'', ''2024-12-22'', ''2024-12-23'', ''2024-12-24'']"
    unfolding day_removed_def rest .
  with h show ?thesis by blast
qed

text \<open>
  The target date 2024-12-30 matches no day and the day number 2 is in range: nothing is
  removed, there is no fall back to the day number.
\<close>

theorem remove_no_fallback_when_date_unmatched:
  "map_option (\<lambda>res. (itinerary_days (returned_plan res) = five_days,
                       TextChunk could_not_find 1 \<in> set (sent (snd res))))
     (handle_incremental_edit calm ''remove that day'' (remove_intent (Some ''2024-12-30'') (Some 2))
        0 rome_world)
   = Some (True, True) \<and> (1 :: int) \<le> 2 \<and> (2 :: int) \<le> int (length five_days)"
  by code_simp

end
